theory Spec2Isabelle
  imports Complex_Main "HOL-Library.Sublist"
begin

section \<open>pyosim: the analyze tool (\<open>pyosim/analyse_tool.py\<close>)\<close>

text \<open>
  A shallow embedding of class \<open>AnalyzeTool\<close>: the typed extraction of parameters from
  an XML template (\<open>parse_analyze_set_xml\<close>, \<open>_str_to_list\<close>), the constructor and the
  per-trial driver (\<open>__init__\<close>, \<open>main_loop\<close>, \<open>run_analyze_tool\<close>) and the two clean-up
  steps on the output directory (\<open>_remove_empty_files\<close>, \<open>_subset_output\<close>).

  Python strings are \<open>string\<close>; a character stands for a code point below 256.
  Every exception of the source is a value of \<open>error\<close>, and a function that may raise
  returns \<open>error + 'a\<close> with \<open>Inl\<close> for the exception.
\<close>

datatype error =
    IndexError
  | KeyError string
  | TypeError
  | ValueError
  | RuntimeError
  | ParseError
  | FileNotFoundError
  | IsADirectoryError
  | OverflowError

subsection \<open>Builtins of the language used by the source\<close>

text \<open>\<open>string[i]\<close> for \<open>i \<ge> 0\<close>: raises \<open>IndexError\<close> out of range.\<close>

definition getitem :: "'a list \<Rightarrow> nat \<Rightarrow> error + 'a" where
  "getitem xs i = (if i < length xs then Inr (xs ! i) else Inl IndexError)"

text \<open>
  \<open>string.split(sep)\<close> for a one-character separator: every occurrence of the separator
  cuts, so two adjacent separators give an empty token and \<open>"".split(" ")\<close> is \<open>[""]\<close>.
\<close>

fun split_on :: "char \<Rightarrow> string \<Rightarrow> string list" where
  "split_on sep [] = [[]]"
| "split_on sep (c # cs) =
     (if c = sep then [] # split_on sep cs
      else (case split_on sep cs of
              w # ws \<Rightarrow> (c # w) # ws
            | [] \<Rightarrow> [[c]]))"

text \<open>\<open>s.startswith(p)\<close> is \<^const>\<open>prefix\<close>; \<open>sub in s\<close> is containment as a contiguous block.\<close>

fun contains_str :: "string \<Rightarrow> string \<Rightarrow> bool" where
  "contains_str sub [] = (sub = [])"
| "contains_str sub (c # cs) = (prefix sub (c # cs) \<or> contains_str sub cs)"

text \<open>
  \<open>s.replace(old, new)\<close> for a non-empty \<open>old\<close>: the occurrences are found from the left
  and do not overlap. The first argument counts the characters of a match still to skip.
\<close>

fun replace_from :: "nat \<Rightarrow> string \<Rightarrow> string \<Rightarrow> string \<Rightarrow> string" where
  "replace_from k old new [] = []"
| "replace_from (Suc k) old new (c # cs) = replace_from k old new cs"
| "replace_from 0 old new (c # cs) =
     (if prefix old (c # cs) then new @ replace_from (length old - 1) old new cs
      else c # replace_from 0 old new cs)"

definition replace :: "string \<Rightarrow> string \<Rightarrow> string \<Rightarrow> string" where
  "replace s old new = replace_from 0 old new s"

text \<open>
  \<open>float(s)\<close> on a string. Whether it returns or raises \<open>ValueError\<close> is decided by the
  syntax of the language reference: white space is stripped on both sides (the six
  ASCII characters tab, line feed, vertical tab, form feed, carriage return and space,
  and below 256 the two other spaces U+0085 and U+00A0), then
  \<^verbatim>\<open>[sign] (floatnumber | "inf" | "infinity" | "nan")\<close> with the three words in any case,
  \<^verbatim>\<open>floatnumber ::= number [("e" | "E") [sign] digitpart]\<close>,
  \<^verbatim>\<open>number ::= [digitpart] "." digitpart | digitpart ["."]\<close> and
  \<^verbatim>\<open>digitpart ::= digit (["_"] digit)*\<close>.
\<close>

definition py_isspace :: "char \<Rightarrow> bool" where
  "py_isspace c \<longleftrightarrow>
     c \<in> set [CHR 0x09, CHR 0x0A, CHR 0x0B, CHR 0x0C, CHR 0x0D, CHR 0x20, CHR 0x85, CHR 0xA0]"

definition strip :: "string \<Rightarrow> string" where
  "strip s = rev (dropWhile py_isspace (rev (dropWhile py_isspace s)))"

definition is_digit :: "char \<Rightarrow> bool" where
  "is_digit c \<longleftrightarrow> c \<in> set ''0123456789''"

fun digitpart :: "string \<Rightarrow> bool" where
  "digitpart [] = False"
| "digitpart [c] = is_digit c"
| "digitpart (c # d # cs) =
     (is_digit c \<and> (if d = CHR ''_'' then digitpart cs else digitpart (d # cs)))"

definition number :: "string \<Rightarrow> bool" where
  "number s =
     (let a = takeWhile (\<lambda>c. c \<noteq> CHR ''.'') s;
          r = dropWhile (\<lambda>c. c \<noteq> CHR ''.'') s
      in if r = [] then digitpart a
         else (a = [] \<and> digitpart (tl r)) \<or> (digitpart a \<and> (tl r = [] \<or> digitpart (tl r))))"

definition drop_sign :: "string \<Rightarrow> string" where
  "drop_sign s =
     (case s of [] \<Rightarrow> [] | c # cs \<Rightarrow> if c = CHR ''+'' \<or> c = CHR ''-'' then cs else s)"

definition floatnumber :: "string \<Rightarrow> bool" where
  "floatnumber s =
     (let m = takeWhile (\<lambda>c. c \<noteq> CHR ''e'' \<and> c \<noteq> CHR ''E'') s;
          r = dropWhile (\<lambda>c. c \<noteq> CHR ''e'' \<and> c \<noteq> CHR ''E'') s
      in number m \<and> (r = [] \<or> digitpart (drop_sign (tl r))))"

definition ascii_lower :: "char \<Rightarrow> char" where
  "ascii_lower c =
     (case map_of (zip ''ABCDEFGHIJKLMNOPQRSTUVWXYZ'' ''abcdefghijklmnopqrstuvwxyz'') c of
        Some l \<Rightarrow> l
      | None \<Rightarrow> c)"

definition float_syntax :: "string \<Rightarrow> bool" where
  "float_syntax s =
     (let b = drop_sign (strip s)
      in floatnumber b \<or> map ascii_lower b \<in> set [''inf'', ''infinity'', ''nan''])"

subsection \<open>The XML template\<close>

text \<open>
  An element of \<open>xml.etree.ElementTree\<close>: its tag, its \<open>text\<close> (\<open>None\<close> when the element has
  no text) and its children in document order.
\<close>

datatype element = Element (tag: string) (elem_text: "string option") (children: "element list")

text \<open>\<open>elem.iter()\<close> without the element itself: all descendants in document order.\<close>

fun descendants :: "element \<Rightarrow> element list" where
  "descendants (Element t x cs) = concat (map (\<lambda>c. c # descendants c) cs)"

text \<open>\<open>root.findall(f".//{node}/*")\<close>: the children of every descendant whose tag is \<open>node\<close>.\<close>

definition findall :: "element \<Rightarrow> string \<Rightarrow> element list" where
  "findall doc node = concat (map children (filter (\<lambda>e. tag e = node) (descendants doc)))"

text \<open>
  The values of the parameter dictionary: a boolean, a float, \<open>None\<close> or a list of tokens.
  \<open>VFloat s\<close> is the float that \<open>float(s)\<close> returns; its binary rounding is not modelled.
\<close>

datatype pvalue = VBool bool | VFloat string | VNone | VList "string list"

subsection \<open>\<open>_str_to_list\<close>\<close>

text \<open>
  The \<open>while\<close> loop of \<open>_str_to_list\<close>, entered with \<open>car = string[count]\<close> already read:
  while \<open>car\<close> is a space, \<open>count\<close> is incremented and \<open>string[count]\<close> is read again,
  with no test of \<open>count\<close> against the length.
\<close>

function while_car :: "string \<Rightarrow> nat \<Rightarrow> char \<Rightarrow> error + nat" where
  "while_car string count car =
     (if car = CHR '' '' then
        (case getitem string (count + 1) of
           Inl e \<Rightarrow> Inl e
         | Inr car' \<Rightarrow> while_car string (count + 1) car')
      else Inr count)"
  by pat_completeness auto
termination
  by (relation "measure (\<lambda>(string, count, car). length string - count)")
     (auto simp: getitem_def split: if_splits)

declare while_car.simps [simp del]

definition str_to_list :: "string \<Rightarrow> error + string list" where
  "str_to_list string =
     (case getitem string 0 of
        Inl e \<Rightarrow> Inl e
      | Inr car \<Rightarrow>
          (case while_car string 0 car of
             Inl e \<Rightarrow> Inl e
           | Inr count \<Rightarrow> Inr (split_on (CHR '' '') (drop count string))))"

subsection \<open>\<open>parse_analyze_set_xml\<close>\<close>

text \<open>The inner helper \<open>isfloat\<close>: \<open>float(value)\<close> returns rather than raising \<open>ValueError\<close>.\<close>

definition isfloat :: "string \<Rightarrow> bool" where
  "isfloat v = float_syntax v"

text \<open>
  The body of the \<open>for\<close> loop: the value stored under \<open>t.tag\<close>, by the \<open>if\<close>/\<open>elif\<close> chain
  on \<open>t.text\<close> in the order of the source.
\<close>

definition typed_value :: "string option \<Rightarrow> error + pvalue" where
  "typed_value txt =
     (if txt = Some ''true'' then Inr (VBool True)
      else if txt = Some ''false'' then Inr (VBool False)
      else (case txt of
              None \<Rightarrow> Inr VNone
            | Some s \<Rightarrow>
                if isfloat s then Inr (VFloat s)
                else (case str_to_list s of
                        Inl e \<Rightarrow> Inl e
                      | Inr li \<Rightarrow> Inr (VList li))))"

type_synonym params = "string \<rightharpoonup> pvalue"

fun extract_loop :: "element list \<Rightarrow> params \<Rightarrow> error + params" where
  "extract_loop [] out = Inr out"
| "extract_loop (t # ts) out =
     (case typed_value (elem_text t) of
        Inl e \<Rightarrow> Inl e
      | Inr v \<Rightarrow> extract_loop ts (out(tag t \<mapsto> v)))"

text \<open>
  \<open>ElementTree.parse(filename)\<close> is the first argument: the root of the document, or the
  exception raised for a missing or malformed file.
\<close>

definition parse_analyze_set_xml ::
  "(string \<Rightarrow> error + element) \<Rightarrow> string \<Rightarrow> string \<Rightarrow> error + params" where
  "parse_analyze_set_xml parse filename node =
     (case parse filename of
        Inl e \<Rightarrow> Inl e
      | Inr doc \<Rightarrow> extract_loop (findall doc node) Map.empty)"

text \<open>Two templates used as concrete inputs below.\<close>

definition template_blank :: element where
  "template_blank =
     Element ''OpenSimDocument'' None
       [Element ''AnalyzeTool'' None
          [Element ''MuscleAnalysis'' None
             [Element ''on'' (Some ''true'') [],
              Element ''muscle_list'' (Some '' '') []]]]"

definition template_so :: element where
  "template_so =
     Element ''OpenSimDocument'' None
       [Element ''AnalyzeTool'' None
          [Element ''StaticOptimization'' None
             [Element ''on'' (Some ''true'') [],
              Element ''step_interval'' (Some ''1'') [],
              Element ''in_degrees'' (Some ''true'') [],
              Element ''use_model_force_set'' (Some ''true'') [],
              Element ''activation_exponent'' (Some ''2'') [],
              Element ''use_muscle_physiology'' (Some ''true'') [],
              Element ''optimizer_convergence_criterion'' (Some ''0.0001'') [],
              Element ''optimizer_max_iterations'' (Some ''100'') []]]]"

subsection \<open>Paths\<close>

text \<open>
  \<open>Path(p).name\<close> and \<open>Path(p).stem\<close> of \<open>pathlib\<close>, on the string of the path: the name
  is the last component (empty components and \<open>.\<close> are dropped when the path is built),
  and the stem is the name cut at its last dot, unless that dot is the first or the last
  character of the name.
\<close>

definition path_name :: "string \<Rightarrow> string" where
  "path_name p =
     (case filter (\<lambda>c. c \<noteq> [] \<and> c \<noteq> ''.'') (split_on (CHR ''/'') p) of
        [] \<Rightarrow> []
      | c # cs \<Rightarrow> last (c # cs))"

definition rfind :: "string \<Rightarrow> char \<Rightarrow> int" where
  "rfind s c =
     (if c \<in> set s then int (length s) - 1 - int (length (takeWhile (\<lambda>x. x \<noteq> c) (rev s)))
      else - 1)"

definition stem :: "string \<Rightarrow> string" where
  "stem p =
     (let name = path_name p; i = rfind name (CHR ''.'')
      in if 0 < i \<and> i < int (length name) - 1 then take (nat i) name else name)"

subsection \<open>The output directory and the two clean-up steps\<close>

text \<open>
  A directory is the list that \<open>iterdir()\<close> yields: for each entry its name, its size in
  bytes (\<open>stat().st_size\<close>) and whether it is itself a directory; \<open>iterdir()\<close> yields the
  subdirectories with the files.
\<close>

datatype entry = Entry (entry_name: string) (st_size: int) (is_dir: bool)

type_synonym directory = "entry list"

text \<open>
  \<open>ifile.unlink()\<close>: on a subdirectory it raises (\<open>IsADirectoryError\<close>), on a file it
  removes the entry with that name. Other refusals of the operating system are not
  modelled.
\<close>

definition unlink :: "entry \<Rightarrow> directory \<Rightarrow> error + directory" where
  "unlink ifile d =
     (if is_dir ifile then Inl IsADirectoryError
      else Inr (filter (\<lambda>f. entry_name f \<noteq> entry_name ifile) d))"

text \<open>
  The loop of both clean-up steps, \<open>for ifile in Path(directory).iterdir(): if cond: ifile.unlink()\<close>,
  over the entries still to visit: the exception of an \<open>unlink\<close> ends it, and the
  entries deleted before stay deleted. The result is the exception, if any, and the
  directory afterwards.
\<close>

fun unlink_loop ::
  "(entry \<Rightarrow> bool) \<Rightarrow> entry list \<Rightarrow> directory \<Rightarrow> error option \<times> directory" where
  "unlink_loop cond [] d = (None, d)"
| "unlink_loop cond (ifile # rest) d =
     (if cond ifile then
        (case unlink ifile d of
           Inl e \<Rightarrow> (Some e, d)
         | Inr d' \<Rightarrow> unlink_loop cond rest d')
      else unlink_loop cond rest d)"

definition remove_empty_files :: "directory \<Rightarrow> int \<Rightarrow> error option \<times> directory" where
  "remove_empty_files directory threshold =
     unlink_loop (\<lambda>ifile. st_size ifile < threshold) directory directory"

text \<open>The default of the parameter \<open>threshold\<close>.\<close>

definition threshold_default :: int where
  "threshold_default = 1000"

definition subset_output :: "directory \<Rightarrow> string \<Rightarrow> error option \<times> directory" where
  "subset_output directory cont =
     unlink_loop (\<lambda>ifile. \<not> contains_str cont (stem (entry_name ifile))) directory directory"

subsection \<open>The object and its environment\<close>

text \<open>
  The fields that \<open>__init__\<close> copies from its arguments. \<open>model_input\<close> is a path or a
  model that is already loaded. The field \<open>prefix\<close> is \<open>prefix_str\<close> here and the flag
  \<open>remove_empty_files\<close> is \<open>remove_empty_files_flag\<close>.
\<close>

datatype model_ref = ModelPath string | ModelObject nat

record tool_args =
  model_input :: model_ref
  xml_input :: string
  xml_output :: string
  sto_output :: string
  xml_forces :: "string option"
  forces_file :: "string option"
  ext_forces_dir :: "string option"
  muscle_forces_dir :: "string option"
  xml_actuators :: "string option"
  prefix_str :: "string option"
  low_pass :: "real option"
  remove_empty_files_flag :: bool
  multi :: bool
  contains :: "string option"
  print_to_xml :: bool

text \<open>
  The object after \<open>__init__\<close>: the fields above, the two times, the trials, and the
  name of the class of the object (\<open>get_class_name\<close> returns \<open>cls.__name__\<close>).
\<close>

record analyze_tool = tool_args +
  start_time :: "real option"
  end_time :: "real option"
  mot_files :: "string list"
  class_name :: string

text \<open>
  What is outside the repository: the XML parser, the times stored in a motion file,
  path resolution (\<open>Path(p).resolve()\<close> and \<open>Path(a, b).resolve()\<close> as strings), the name
  of the model, what a run of the engine for a trial does to the results directory,
  whether the float \<open>float(s)\<close> is zero, and the exception that \<open>int(float(s))\<close> raises,
  if any (\<open>OverflowError\<close> on an infinity, \<open>ValueError\<close> on a NaN).
\<close>

record env =
  et_parse :: "string \<Rightarrow> error + element"
  storage_first_time :: "string \<Rightarrow> real"
  storage_last_time :: "string \<Rightarrow> real"
  resolve :: "string \<Rightarrow> string"
  resolve_in :: "string \<Rightarrow> string \<Rightarrow> string"
  model_to_string :: "model_ref \<Rightarrow> string"
  tool_run :: "string \<Rightarrow> directory \<Rightarrow> directory"
  float_is_zero :: "string \<Rightarrow> bool"
  float_int_error :: "string \<Rightarrow> error option"

text \<open>
  The effects of a run: the text printed, every call into the \<open>opensim\<close> package by the
  name of the class or method called and with its arguments, and the deletion of the
  temporary file. That a call into the engine fails is not modelled.
\<close>

datatype arg =
    AStr string
  | ANum real
  | ABool bool
  | AVal pvalue
  | AInt pvalue

datatype event =
    Print string
  | Engine string "arg list"
  | TempUnlink string

text \<open>
  An action runs on the results directory and gives the events in order, the value
  returned or the exception raised, and the directory afterwards. After an exception
  nothing more happens.
\<close>

type_synonym 'a action = "directory \<Rightarrow> event list \<times> (error + 'a) \<times> directory"

definition ret :: "'a \<Rightarrow> 'a action" where
  "ret x d = ([], Inr x, d)"

definition throw :: "error \<Rightarrow> 'a action" where
  "throw e d = ([], Inl e, d)"

definition lift_err :: "error + 'a \<Rightarrow> 'a action" where
  "lift_err r d = ([], r, d)"

definition emit :: "event \<Rightarrow> unit action" where
  "emit ev d = ([ev], Inr (), d)"

definition call :: "string \<Rightarrow> arg list \<Rightarrow> unit action" where
  "call name args = emit (Engine name args)"

definition bind_act :: "'a action \<Rightarrow> ('a \<Rightarrow> 'b action) \<Rightarrow> 'b action" where
  "bind_act m f d =
     (case m d of
        (evs, Inl e, d') \<Rightarrow> (evs, Inl e, d')
      | (evs, Inr x, d') \<Rightarrow> (case f x d' of (evs', r, d'') \<Rightarrow> (evs @ evs', r, d'')))"

definition then_act :: "unit action \<Rightarrow> 'b action \<Rightarrow> 'b action" where
  "then_act m k = bind_act m (\<lambda>_. k)"

fun seq_acts :: "unit action list \<Rightarrow> unit action" where
  "seq_acts [] = ret ()"
| "seq_acts (a # as) = then_act a (seq_acts as)"

definition when_act :: "bool \<Rightarrow> unit action \<Rightarrow> unit action" where
  "when_act b a = (if b then a else ret ())"

definition modify_dir :: "(directory \<Rightarrow> directory) \<Rightarrow> unit action" where
  "modify_dir f d = ([], Inr (), f d)"

text \<open>A clean-up step as an action: its exception, if any, is raised.\<close>

definition cleanup_act :: "(directory \<Rightarrow> error option \<times> directory) \<Rightarrow> unit action" where
  "cleanup_act f d =
     (case f d of
        (None, d') \<Rightarrow> ([], Inr (), d')
      | (Some e, d') \<Rightarrow> ([], Inl e, d'))"

text \<open>Truth values of the language: \<open>None\<close>, the empty string and zero are false.\<close>

definition truthy_str :: "string option \<Rightarrow> bool" where
  "truthy_str x = (case x of None \<Rightarrow> False | Some s \<Rightarrow> s \<noteq> [])"

definition truthy_num :: "real option \<Rightarrow> bool" where
  "truthy_num x = (case x of None \<Rightarrow> False | Some r \<Rightarrow> r \<noteq> 0)"

definition truthy_val :: "env \<Rightarrow> pvalue \<Rightarrow> bool" where
  "truthy_val en v =
     (case v of
        VBool b \<Rightarrow> b
      | VFloat s \<Rightarrow> \<not> float_is_zero en s
      | VNone \<Rightarrow> False
      | VList li \<Rightarrow> li \<noteq> [])"

text \<open>
  \<open>params[key]\<close>, \<open>int(v)\<close> and \<open>for x in v\<close> on a value of the dictionary. The integer
  of a float stays symbolic (\<open>AInt\<close>) when \<open>int\<close> returns; on an infinity or a NaN it
  raises.
\<close>

definition lookup :: "params \<Rightarrow> string \<Rightarrow> error + pvalue" where
  "lookup ps key = (case ps key of None \<Rightarrow> Inl (KeyError key) | Some v \<Rightarrow> Inr v)"

definition py_int :: "env \<Rightarrow> pvalue \<Rightarrow> error + arg" where
  "py_int en v =
     (case v of
        VBool b \<Rightarrow> Inr (AInt v)
      | VFloat s \<Rightarrow> (case float_int_error en s of Some e \<Rightarrow> Inl e | None \<Rightarrow> Inr (AInt v))
      | VNone \<Rightarrow> Inl TypeError
      | VList li \<Rightarrow> Inl TypeError)"

definition py_iter :: "pvalue \<Rightarrow> error + string list" where
  "py_iter v = (case v of VList li \<Rightarrow> Inr li | _ \<Rightarrow> Inl TypeError)"

definition opt_str :: "string option \<Rightarrow> string" where
  "opt_str x = (case x of None \<Rightarrow> ''None'' | Some v \<Rightarrow> v)"

definition opt_num :: "real option \<Rightarrow> real" where
  "opt_num x = (case x of None \<Rightarrow> 0 | Some v \<Rightarrow> v)"

subsection \<open>\<open>run_analyze_tool\<close>\<close>

text \<open>
  The effective start time (and likewise the end time): the source tests
  \<open>self.start_time and self.start_time != -1\<close> and reads the motion file otherwise.
\<close>

definition first_time_of :: "env \<Rightarrow> analyze_tool \<Rightarrow> string \<Rightarrow> real action" where
  "first_time_of en self trial =
     (if truthy_num (start_time self) \<and> start_time self \<noteq> Some (- 1)
      then ret (opt_num (start_time self))
      else then_act (call ''Storage.getFirstTime'' [])
             (ret (storage_first_time en (resolve en trial))))"

definition last_time_of :: "env \<Rightarrow> analyze_tool \<Rightarrow> string \<Rightarrow> real action" where
  "last_time_of en self trial =
     (if truthy_num (end_time self) \<and> end_time self \<noteq> Some (- 1)
      then ret (opt_num (end_time self))
      else then_act (call ''Storage.getLastTime'' [])
             (ret (storage_last_time en (resolve en trial))))"

definition temp_xml :: "string \<Rightarrow> string" where
  "temp_xml trial = stem trial @ ''_temp.xml''"

text \<open>
  The temporary file of external loads, written when \<open>xml_forces\<close> is set.
  \<open>Path(None, x)\<close> raises \<open>TypeError\<close>.
\<close>

definition external_loads :: "env \<Rightarrow> analyze_tool \<Rightarrow> string \<Rightarrow> unit action" where
  "external_loads en self trial =
     when_act (truthy_str (xml_forces self))
       (seq_acts
          [call ''ExternalLoads'' [AStr (opt_str (xml_forces self)), ABool True],
           bind_act
             (lift_err
                (case ext_forces_dir self of
                   None \<Rightarrow> Inl TypeError
                 | Some dir \<Rightarrow>
                     Inr (resolve_in en dir
                            (if truthy_str (prefix_str self)
                             then replace (stem trial) (opt_str (prefix_str self) @ ''_'') []
                             else stem trial)
                          @ ''.sto'')))
             (\<lambda>f. call ''ExternalLoads.setDataFileName'' [AStr f]),
           call ''ExternalLoads.setExternalLoadsModelKinematicsFileName''
             [AStr (resolve en trial)],
           when_act (truthy_num (low_pass self))
             (call ''ExternalLoads.setLowpassCutoffFrequencyForLoadKinematics''
                [ANum (opt_num (low_pass self))]),
           call ''ExternalLoads.printToXML'' [AStr (resolve en (temp_xml trial))]])"

text \<open>Lines 145 to 181: everything before the class name is looked at.\<close>

definition prepare :: "env \<Rightarrow> analyze_tool \<Rightarrow> string \<Rightarrow> (real \<times> real) action" where
  "prepare en self trial =
     then_act (emit (Print (CHR 0x09 # stem trial)))
    (then_act (case model_input self of
                 ModelPath p \<Rightarrow> call ''Model'' [AStr p]
               | ModelObject n \<Rightarrow> ret ())
    (then_act (call ''Model.initSystem'' [])
    (then_act (call ''Storage'' [AStr (resolve en trial)])
    (bind_act (first_time_of en self trial) (\<lambda>first_time.
     bind_act (last_time_of en self trial) (\<lambda>last_time.
     then_act (external_loads en self trial)
       (ret (first_time, last_time))))))))"

definition set_param :: "string \<Rightarrow> params \<Rightarrow> string \<Rightarrow> unit action" where
  "set_param name ps key = bind_act (lift_err (lookup ps key)) (\<lambda>v. call name [AVal v])"

definition set_int_param :: "env \<Rightarrow> string \<Rightarrow> params \<Rightarrow> string \<Rightarrow> unit action" where
  "set_int_param en name ps key =
     bind_act (lift_err (lookup ps key)) (\<lambda>v.
     bind_act (lift_err (py_int en v)) (\<lambda>i. call name [i]))"

text \<open>\<open>a = osim.ArrayStr()\<close> followed by \<open>for x in params[key]: a.append(x)\<close>.\<close>

definition fill_array :: "params \<Rightarrow> string \<Rightarrow> unit action" where
  "fill_array ps key =
     then_act (call ''ArrayStr'' [])
       (bind_act (lift_err (lookup ps key)) (\<lambda>v.
        bind_act (lift_err (py_iter v)) (\<lambda>li.
        seq_acts (map (\<lambda>x. call ''ArrayStr.append'' [AStr x]) li))))"

text \<open>
  The \<open>if\<close>/\<open>elif\<close>/\<open>else\<close> on the class name (lines 186 to 230); the value returned is
  \<open>solve_for_equilibrium\<close>.
\<close>

definition configure :: "env \<Rightarrow> analyze_tool \<Rightarrow> params \<Rightarrow> bool action" where
  "configure en self ps =
     (let current_class = class_name self in
      if current_class = ''StaticOptimization'' then
        then_act
          (seq_acts
             [call ''StaticOptimization'' [],
              set_param ''StaticOptimization.setUseModelForceSet'' ps ''use_model_force_set'',
              set_param ''StaticOptimization.setActivationExponent'' ps ''activation_exponent'',
              set_param ''StaticOptimization.setUseMusclePhysiology'' ps ''use_muscle_physiology'',
              set_param ''StaticOptimization.setConvergenceCriterion'' ps
                ''optimizer_convergence_criterion'',
              set_int_param en ''StaticOptimization.setMaxIterations'' ps
                ''optimizer_max_iterations''])
          (ret False)
      else if current_class = ''MuscleAnalysis'' then
        then_act
          (seq_acts
             [call ''MuscleAnalysis'' [],
              fill_array ps ''moment_arm_coordinate_list'',
              call ''MuscleAnalysis.setCoordinates'' [],
              fill_array ps ''muscle_list'',
              call ''MuscleAnalysis.setMuscles'' []])
          (ret True)
      else if current_class = ''JointReaction'' then
        then_act
          (seq_acts
             [call ''JointReaction'' [],
              bind_act (lift_err (lookup ps ''forces_file'')) (\<lambda>v.
                when_act (truthy_val en v \<or> truthy_str (forces_file self))
                  (call ''JointReaction.setForcesFileName''
                     [if truthy_str (forces_file self)
                      then AStr (opt_str (forces_file self)) else AVal v])),
              fill_array ps ''joint_names'',
              call ''JointReaction.setJointNames'' [],
              fill_array ps ''apply_on_bodies'',
              call ''JointReaction.setOnBody'' [],
              fill_array ps ''express_in_frame'',
              call ''JointReaction.setInFrame'' []])
          (ret False)
      else throw ValueError)"

text \<open>Lines 231 to 280: the shared settings, the run of the tool and the clean-up.\<close>

definition finish ::
  "env \<Rightarrow> analyze_tool \<Rightarrow> string \<Rightarrow> params \<Rightarrow> real \<Rightarrow> real \<Rightarrow> bool \<Rightarrow> unit action" where
  "finish en self trial ps first_time last_time solve_for_equilibrium =
     seq_acts
       [call ''Analysis.setModel'' [],
        call ''Analysis.setName'' [AStr (class_name self)],
        set_param ''Analysis.setOn'' ps ''on'',
        set_int_param en ''Analysis.setStepInterval'' ps ''step_interval'',
        set_param ''Analysis.setInDegrees'' ps ''in_degrees'',
        call ''Analysis.setStartTime'' [ANum first_time],
        call ''Analysis.setEndTime'' [ANum last_time],
        call ''Model.addAnalysis'' [],
        when_act (print_to_xml self)
          (call ''Analysis.printToXML''
             [AStr (xml_output self @ ''/'' @ class_name self @ ''_analysis.xml'')]),
        call ''AnalyzeTool'' [],
        call ''AnalyzeTool.setName'' [AStr (stem trial)],
        call ''AnalyzeTool.setModel'' [],
        call ''AnalyzeTool.setModelFilename''
          [AStr (stem (model_to_string en (model_input self)))],
        call ''AnalyzeTool.setSolveForEquilibrium'' [ABool solve_for_equilibrium],
        when_act (truthy_str (xml_actuators self))
          (seq_acts
             [call ''ArrayStr'' [],
              call ''ArrayStr.append'' [AStr (opt_str (xml_actuators self))],
              call ''AnalyzeTool.setForceSetFiles'' [],
              call ''AnalyzeTool.updateModelForces'' [AStr (opt_str (xml_actuators self))]]),
        call ''AnalyzeTool.setInitialTime'' [ANum first_time],
        call ''AnalyzeTool.setFinalTime'' [ANum last_time],
        when_act (truthy_num (low_pass self))
          (call ''AnalyzeTool.setLowpassCutoffFrequency'' [ANum (opt_num (low_pass self))]),
        call ''AnalyzeTool.setCoordinatesFileName'' [AStr (resolve en trial)],
        when_act (truthy_str (xml_forces self))
          (call ''AnalyzeTool.setExternalLoadsFileName'' [AStr (temp_xml trial)]),
        call ''AnalyzeTool.setLoadModelAndInput'' [ABool True],
        call ''AnalyzeTool.setResultsDir'' [AStr (sto_output self)],
        call ''AnalyzeTool.run'' [],
        modify_dir (tool_run en (stem trial)),
        call ''Model.removeAnalysis'' [],
        when_act (truthy_str (xml_forces self)) (emit (TempUnlink (temp_xml trial))),
        when_act (remove_empty_files_flag self)
          (cleanup_act (\<lambda>d. remove_empty_files d threshold_default)),
        when_act (truthy_str (contains self))
          (cleanup_act (\<lambda>d. subset_output d (opt_str (contains self))))]"

definition run_analyze_tool :: "env \<Rightarrow> analyze_tool \<Rightarrow> string \<Rightarrow> unit action" where
  "run_analyze_tool en self trial =
     (if truthy_str (prefix_str self) \<and> \<not> prefix (opt_str (prefix_str self)) (stem trial)
      then ret ()
      else
        bind_act (prepare en self trial) (\<lambda>(first_time, last_time).
        bind_act (lift_err (parse_analyze_set_xml (et_parse en) (xml_input self) (class_name self)))
          (\<lambda>ps.
        bind_act (configure en self ps) (\<lambda>solve_for_equilibrium.
        finish en self trial ps first_time last_time solve_for_equilibrium))))"

subsection \<open>\<open>main_loop\<close> and \<open>__init__\<close>\<close>

text \<open>
  The \<open>for\<close> loop of \<open>main_loop\<close>. With \<open>multi\<close> the same calls are handed to a pool of
  worker processes; their interleaving is not modelled.
\<close>

fun for_trials :: "env \<Rightarrow> analyze_tool \<Rightarrow> string list \<Rightarrow> unit action" where
  "for_trials en self [] = ret ()"
| "for_trials en self (itrial # rest) =
     then_act (run_analyze_tool en self itrial) (for_trials en self rest)"

definition main_loop :: "env \<Rightarrow> analyze_tool \<Rightarrow> unit action" where
  "main_loop en self = for_trials en self (mot_files self)"

text \<open>
  The argument \<open>time_range\<close>: \<open>None\<close>, a list, an array, or something else (a tuple and
  a number stand for the rest). The argument \<open>mot_files\<close>: one path or a list of paths.
\<close>

datatype time_range_arg =
    TRNone
  | TRList "real list"
  | TRArray "real list"
  | TRTuple "real list"
  | TRNumber real

datatype mot_arg = MotOne string | MotList "string list"

definition init_time_range :: "time_range_arg \<Rightarrow> error + (real option \<times> real option)" where
  "init_time_range time_range =
     (case time_range of
        TRList xs \<Rightarrow>
          (case getitem xs 0 of
             Inl e \<Rightarrow> Inl e
           | Inr a \<Rightarrow> (case getitem xs 1 of Inl e \<Rightarrow> Inl e | Inr b \<Rightarrow> Inr (Some a, Some b)))
      | TRArray xs \<Rightarrow>
          (case getitem xs 0 of
             Inl e \<Rightarrow> Inl e
           | Inr a \<Rightarrow> (case getitem xs 1 of Inl e \<Rightarrow> Inl e | Inr b \<Rightarrow> Inr (Some a, Some b)))
      | TRNone \<Rightarrow> Inr (None, None)
      | _ \<Rightarrow> Inl RuntimeError)"

definition init_mot_files :: "mot_arg \<Rightarrow> error + string list" where
  "init_mot_files mot =
     (case mot of
        MotOne f \<Rightarrow> Inr [f]
      | MotList fs \<Rightarrow> (case getitem fs 0 of Inl e \<Rightarrow> Inl e | Inr f \<Rightarrow> Inr fs))"

text \<open>
  Lines 119 to 127 of \<open>__init__\<close>, with the two times already set: the trials, then
  \<open>main_loop\<close>.
\<close>

definition construct ::
  "env \<Rightarrow> string \<Rightarrow> tool_args \<Rightarrow> real option \<Rightarrow> real option \<Rightarrow> mot_arg \<Rightarrow> analyze_tool action"
  where
  "construct en cls args st et mot =
     bind_act (lift_err (init_mot_files mot)) (\<lambda>ms.
       let self = tool_args.extend args (analyze_tool.fields st et ms cls)
       in then_act (main_loop en self) (ret self))"

text \<open>
  \<open>__init__\<close> of an object of class \<open>cls\<close>: the fields, the test of \<open>time_range\<close>
  (lines 111 to 117), then the rest.
\<close>

definition init ::
  "env \<Rightarrow> string \<Rightarrow> tool_args \<Rightarrow> time_range_arg \<Rightarrow> mot_arg \<Rightarrow> analyze_tool action" where
  "init en cls args time_range mot =
     bind_act (lift_err (init_time_range time_range)) (\<lambda>(st, et).
       construct en cls args st et mot)"

subsection \<open>A concrete project\<close>

text \<open>
  An environment and the arguments of a static optimization on the model \<open>wu\<close>, used as
  concrete inputs below: the motion of every trial is recorded from 0.5 s to 3 s, and a
  run of the engine adds one result file of 5000 bytes.
\<close>

definition env0 :: env where
  "env0 =
     \<lparr>et_parse = (\<lambda>f. if f = ''wu_so.xml'' then Inr template_so else Inl FileNotFoundError),
      storage_first_time = (\<lambda>p. 1 / 2),
      storage_last_time = (\<lambda>p. 3),
      resolve = (\<lambda>p. ''/data/'' @ p),
      resolve_in = (\<lambda>a b. ''/data/'' @ a @ ''/'' @ b),
      model_to_string = (\<lambda>m. ''wu''),
      tool_run = (\<lambda>st d. d @ [Entry (st @ ''_StaticOptimization_force.sto'') 5000 False]),
      float_is_zero = (\<lambda>s. False),
      float_int_error = (\<lambda>s. None)\<rparr>"

definition args0 :: tool_args where
  "args0 =
     \<lparr>model_input = ModelPath ''wu_scaled.osim'',
      xml_input = ''wu_so.xml'',
      xml_output = ''_xml'',
      sto_output = ''3_static_optimization'',
      xml_forces = None,
      forces_file = None,
      ext_forces_dir = None,
      muscle_forces_dir = None,
      xml_actuators = None,
      prefix_str = Some ''wu'',
      low_pass = None,
      remove_empty_files_flag = False,
      multi = False,
      contains = None,
      print_to_xml = False\<rparr>"

text \<open>The object that \<open>__init__\<close> builds from \<open>args0\<close> for a class, a time range and trials.\<close>

definition tool0 :: "string \<Rightarrow> real option \<Rightarrow> real option \<Rightarrow> string list \<Rightarrow> analyze_tool" where
  "tool0 cls st et ms = tool_args.extend args0 (analyze_tool.fields st et ms cls)"

subsection \<open>Notions used in the statements\<close>

text \<open>The test of \<open>run_analyze_tool\<close> on the prefix: the trial is passed over.\<close>

definition skipped :: "analyze_tool \<Rightarrow> string \<Rightarrow> bool" where
  "skipped self trial \<longleftrightarrow>
     truthy_str (prefix_str self) \<and> \<not> prefix (opt_str (prefix_str self)) (stem trial)"



text \<open>An action whose events all satisfy \<open>P\<close> and that leaves the directory as it is.\<close>

definition confined :: "(event \<Rightarrow> bool) \<Rightarrow> 'a action \<Rightarrow> bool" where
  "confined P a \<longleftrightarrow> (\<forall>d. list_all P (fst (a d)) \<and> snd (snd (a d)) = d)"

section \<open>Properties of the extractor\<close>

subsection \<open>The tokenizer\<close>

lemma while_car_eq:
  "count < length s \<Longrightarrow>
   while_car s count (s ! count) =
     (if \<exists>c \<in> set (drop count s). c \<noteq> CHR '' ''
      then Inr (count + length (takeWhile (\<lambda>c. c = CHR '' '') (drop count s)))
      else Inl IndexError)"
proof (induction "length s - count" arbitrary: count)
  case 0
  then show ?case by simp
next
  case (Suc n)
  have d: "drop count s = s ! count # drop (Suc count) s"
    using Suc.prems by (simp add: Cons_nth_drop_Suc)
  show ?case
  proof (cases "s ! count = CHR '' ''")
    case False
    then show ?thesis
      by (subst while_car.simps) (simp add: d)
  next
    case True
    show ?thesis
    proof (cases "Suc count < length s")
      case False
      then have "drop (Suc count) s = []" by simp
      with True False show ?thesis
        by (subst while_car.simps) (simp add: d getitem_def)
    next
      case lt: True
      have "n = length s - Suc count" using Suc.hyps(2) by simp
      from Suc.hyps(1) [OF this lt] True lt show ?thesis
        by (subst while_car.simps) (simp add: d getitem_def)
    qed
  qed
qed

text \<open>
  What \<open>_str_to_list\<close> computes: on a string with a character other than a space, the
  tokens of the string without its leading spaces; on any other string, \<open>IndexError\<close>.
\<close>

lemma str_to_list_eq:
  "str_to_list s =
     (if \<exists>c \<in> set s. c \<noteq> CHR '' ''
      then Inr (split_on (CHR '' '') (dropWhile (\<lambda>c. c = CHR '' '') s))
      else Inl IndexError)"
proof (cases "s = []")
  case True
  then show ?thesis by (simp add: str_to_list_def getitem_def)
next
  case False
  then have "0 < length s" by simp
  from while_car_eq [OF this] False show ?thesis
    by (simp add: str_to_list_def getitem_def dropWhile_eq_drop)
qed

lemma split_on_not_Nil: "split_on sep s \<noteq> []"
  by (induction s) (auto split: list.splits)

lemma hd_split_on: "s \<noteq> [] \<Longrightarrow> hd s \<noteq> sep \<Longrightarrow> hd (split_on sep s) \<noteq> []"
  by (cases s) (auto split: list.splits)

text \<open>
  On a text that has a character other than a space, the leading spaces are all removed
  before the split, and the first token is not empty.
\<close>

lemma str_to_list_nonblank:
  assumes "\<exists>c \<in> set s. c \<noteq> CHR '' ''"
  shows "\<exists>li. str_to_list s = Inr li
           \<and> li = split_on (CHR '' '') (dropWhile (\<lambda>c. c = CHR '' '') s)
           \<and> li \<noteq> [] \<and> hd li \<noteq> []"
proof -
  let ?r = "dropWhile (\<lambda>c. c = CHR '' '') s"
  from assms have ne: "?r \<noteq> []" by (simp add: dropWhile_eq_Nil_conv)
  then have "hd ?r \<noteq> CHR '' ''" using hd_dropWhile [of "\<lambda>c. c = CHR '' ''" s] by blast
  with ne have "hd (split_on (CHR '' '') ?r) \<noteq> []" by (rule hd_split_on)
  with assms show ?thesis by (simp add: str_to_list_eq split_on_not_Nil)
qed

lemma str_to_list_example: "str_to_list ''   a b c'' = Inr [''a'', ''b'', ''c'']"
  by (simp add: str_to_list_eq)

lemma str_to_list_inner_spaces: "str_to_list ''a  b'' = Inr [''a'', [], ''b'']"
  by (simp add: str_to_list_eq)

subsection \<open>The typed value of an element\<close>

lemma isfloat_blank: "set s \<subseteq> {CHR '' ''} \<Longrightarrow> \<not> isfloat s"
proof -
  assume a: "set s \<subseteq> {CHR '' ''}"
  have sp: "py_isspace (CHR '' '')" by (simp add: py_isspace_def)
  have "\<forall>c \<in> set s. py_isspace c"
  proof
    fix c assume "c \<in> set s"
    with a have "c = CHR '' ''" by blast
    with sp show "py_isspace c" by simp
  qed
  then have "dropWhile py_isspace s = []" by (induction s) auto
  then have "strip s = []" by (simp only: strip_def rev.simps dropWhile.simps)
  then have b: "drop_sign (strip s) = []" by (simp add: drop_sign_def)
  have "\<not> floatnumber []" by (simp add: floatnumber_def number_def)
  with b show ?thesis by (simp add: isfloat_def float_syntax_def)
qed

lemma typed_value_error: "typed_value x = Inl e \<Longrightarrow> e = IndexError"
  by (auto simp: typed_value_def str_to_list_eq split: if_splits option.splits sum.splits)

text \<open>
  The precedence of the \<open>if\<close>/\<open>elif\<close> chain: the two booleans, then \<open>None\<close>, then a float,
  then the tokens; the last case raises when the text has nothing but spaces.
\<close>

lemma typed_value_cases:
  "typed_value (Some ''true'') = Inr (VBool True)"
  "typed_value (Some ''false'') = Inr (VBool False)"
  "typed_value None = Inr VNone"
  "s \<noteq> ''true'' \<Longrightarrow> s \<noteq> ''false'' \<Longrightarrow> isfloat s \<Longrightarrow> typed_value (Some s) = Inr (VFloat s)"
  "s \<noteq> ''true'' \<Longrightarrow> s \<noteq> ''false'' \<Longrightarrow> \<not> isfloat s \<Longrightarrow> \<exists>c \<in> set s. c \<noteq> CHR '' '' \<Longrightarrow>
     typed_value (Some s) = Inr (VList (split_on (CHR '' '') (dropWhile (\<lambda>c. c = CHR '' '') s)))"
  by (simp_all add: typed_value_def str_to_list_eq)

subsection \<open>The loop over the elements\<close>

lemma extract_loop_error:
  "t \<in> set ts \<Longrightarrow> typed_value (elem_text t) = Inl e \<Longrightarrow> extract_loop ts out = Inl IndexError"
proof (induction ts arbitrary: out)
  case Nil
  then show ?case by simp
next
  case (Cons a ts)
  then show ?case
    by (cases "typed_value (elem_text a)") (auto dest: typed_value_error)
qed

lemma extract_loop_other_key:
  "extract_loop ts out = Inr m \<Longrightarrow> k \<notin> tag ` set ts \<Longrightarrow> m k = out k"
  by (induction ts arbitrary: out) (auto split: sum.splits)

text \<open>
  When the loop returns, the tag of every element is a key, and its value is the typed
  value of an element with that tag (the last one in document order).
\<close>

lemma extract_loop_key:
  "extract_loop ts out = Inr m \<Longrightarrow> t \<in> set ts \<Longrightarrow>
     \<exists>t' \<in> set ts. \<exists>v. tag t' = tag t \<and> typed_value (elem_text t') = Inr v \<and> m (tag t) = Some v"
proof (induction ts arbitrary: out t)
  case Nil
  then show ?case by simp
next
  case (Cons a ts)
  from Cons.prems(1) obtain v where v: "typed_value (elem_text a) = Inr v"
    and rest: "extract_loop ts (out(tag a \<mapsto> v)) = Inr m"
    by (auto split: sum.splits)
  show ?case
  proof (cases "tag t \<in> tag ` set ts")
    case True
    then obtain u where u: "u \<in> set ts" and tu: "tag u = tag t" by auto
    from Cons.IH [OF rest u] tu show ?thesis by auto
  next
    case False
    with Cons.prems(2) have ta: "t = a" by auto
    from extract_loop_other_key [OF rest False] ta have "m (tag t) = Some v" by simp
    with v ta show ?thesis by auto
  qed
qed

text \<open>
  C10. On every string that is empty or has nothing but spaces, \<open>_str_to_list\<close> raises
  \<open>IndexError\<close>; so does the typing of an element with such a text, and so does the whole
  extraction of a document in which a selected element has such a text: no \<open>None\<close> and no
  empty token list is produced.
\<close>

theorem blank_text_raises:
  "set s \<subseteq> {CHR '' ''} \<Longrightarrow>
     str_to_list s = Inl IndexError
   \<and> typed_value (Some s) = Inl IndexError
   \<and> (\<forall>parse filename node doc t.
         parse filename = Inr doc \<and> t \<in> set (findall doc node) \<and> elem_text t = Some s
         \<longrightarrow> parse_analyze_set_xml parse filename node = Inl IndexError)"
proof -
  assume a: "set s \<subseteq> {CHR '' ''}"
  then have none: "\<not> (\<exists>c \<in> set s. c \<noteq> CHR '' '')" by blast
  then have l: "str_to_list s = Inl IndexError" by (simp add: str_to_list_eq)
  have "s \<noteq> ''true''" "s \<noteq> ''false''" using a by auto
  with isfloat_blank [OF a] l have tv: "typed_value (Some s) = Inl IndexError"
    by (simp add: typed_value_def)
  have "parse_analyze_set_xml parse filename node = Inl IndexError"
    if "parse filename = Inr doc" "t \<in> set (findall doc node)" "elem_text t = Some s"
    for parse filename node doc t
    using that tv extract_loop_error [of t "findall doc node" IndexError Map.empty]
    by (simp add: parse_analyze_set_xml_def)
  with l tv show ?thesis by blast
qed

theorem blank_text_raises_witness:
  "set '' '' \<subseteq> {CHR '' ''}
   \<and> str_to_list '' '' = Inl IndexError
   \<and> typed_value (Some '' '') = Inl IndexError
   \<and> Element ''muscle_list'' (Some '' '') [] \<in> set (findall template_blank ''MuscleAnalysis'')
   \<and> parse_analyze_set_xml (\<lambda>f. Inr template_blank) ''wu_ma.xml'' ''MuscleAnalysis''
       = Inl IndexError"
proof -
  have h: "set '' '' \<subseteq> {CHR '' ''}" by simp
  have m: "Element ''muscle_list'' (Some '' '') [] \<in> set (findall template_blank ''MuscleAnalysis'')"
    by (simp add: findall_def template_blank_def)
  note r = blank_text_raises [OF h]
  have "parse_analyze_set_xml (\<lambda>f. Inr template_blank) ''wu_ma.xml'' ''MuscleAnalysis''
       = Inl IndexError"
    by (rule r [THEN conjunct2, THEN conjunct2, rule_format,
          where parse = "\<lambda>f. Inr template_blank" and doc = template_blank
            and t = "Element ''muscle_list'' (Some '' '') []"])
       (simp add: m)
  with r h m show ?thesis by blast
qed

text \<open>
  C9. When the document parses and the lookup \<open>.//node/*\<close> selects no element, the
  extractor returns the empty dictionary.
\<close>

theorem no_match_empty_mapping:
  "parse filename = Inr doc \<Longrightarrow> findall doc node = [] \<Longrightarrow>
     parse_analyze_set_xml parse filename node = Inr Map.empty"
  by (simp add: parse_analyze_set_xml_def)

theorem no_match_empty_mapping_witness:
  "findall template_so ''JointReaction'' = []
   \<and> parse_analyze_set_xml (\<lambda>f. Inr template_so) ''wu_so.xml'' ''JointReaction'' = Inr Map.empty"
proof -
  have f: "findall template_so ''JointReaction'' = []"
    by (simp add: findall_def template_so_def)
  from no_match_empty_mapping [of "\<lambda>f. Inr template_so" "''wu_so.xml''" template_so, OF _ f] f
  show ?thesis by simp
qed

text \<open>
  C1. The element \<open><muscle_list> </muscle_list>\<close> has a text that is not \<open>None\<close>, not
  \<open>"true"\<close> or \<open>"false"\<close> and not a float, and the extractor gives no token list for it:
  the extraction of the whole template raises \<open>IndexError\<close>.
\<close>

theorem extractor_blank_element:
  "\<not> isfloat '' ''
   \<and> findall template_blank ''MuscleAnalysis''
       = [Element ''on'' (Some ''true'') [], Element ''muscle_list'' (Some '' '') []]
   \<and> parse_analyze_set_xml (\<lambda>f. Inr template_blank) ''wu_ma.xml'' ''MuscleAnalysis''
       = Inl IndexError"
proof -
  have "\<not> isfloat '' ''" by (rule isfloat_blank) simp
  moreover have f: "findall template_blank ''MuscleAnalysis''
       = [Element ''on'' (Some ''true'') [], Element ''muscle_list'' (Some '' '') []]"
    by (simp add: findall_def template_blank_def)
  moreover have "typed_value (Some '' '') = Inl IndexError"
    using \<open>\<not> isfloat '' ''\<close> by (simp add: typed_value_def str_to_list_eq)
  then have "parse_analyze_set_xml (\<lambda>f. Inr template_blank) ''wu_ma.xml'' ''MuscleAnalysis''
       = Inl IndexError"
    by (simp add: parse_analyze_set_xml_def f typed_value_cases)
  ultimately show ?thesis by blast
qed

text \<open>
  C5. The text of three spaces is neither a boolean nor a number and begins with spaces,
  and the tokenizer returns no token list for it: it raises \<open>IndexError\<close>.
\<close>

theorem str_to_list_three_spaces:
  "\<not> isfloat ''   '' \<and> ''   '' \<noteq> ''true'' \<and> ''   '' \<noteq> ''false''
   \<and> str_to_list ''   '' = Inl IndexError"
proof -
  have "\<not> isfloat ''   ''" by (rule isfloat_blank) simp
  then show ?thesis by (simp add: str_to_list_eq)
qed

subsection \<open>The clean-up steps\<close>

text \<open>
  When no entry that meets the condition is a subdirectory, the loop ends without an
  exception and has removed exactly the entries whose name is that of an entry meeting
  the condition.
\<close>

lemma unlink_loop_files:
  "\<forall>f \<in> set xs. cond f \<longrightarrow> \<not> is_dir f \<Longrightarrow>
   unlink_loop cond xs d
     = (None, filter (\<lambda>g. \<not> (\<exists>f \<in> set xs. cond f \<and> entry_name g = entry_name f)) d)"
proof (induction xs arbitrary: d)
  case Nil
  then show ?case by simp
next
  case (Cons x xs)
  then have rest: "\<forall>f \<in> set xs. cond f \<longrightarrow> \<not> is_dir f" by simp
  show ?case
  proof (cases "cond x")
    case True
    with Cons.prems have "\<not> is_dir x" by simp
    with True show ?thesis
      by (auto simp: Cons.IH [OF rest] unlink_def intro: filter_cong)
  next
    case False
    then show ?thesis
      by (auto simp: Cons.IH [OF rest] intro: filter_cong)
  qed
qed

text \<open>The first entry that meets the condition and is a subdirectory ends the loop.\<close>

lemma unlink_loop_subdirectory:
  "cond x \<Longrightarrow> is_dir x \<Longrightarrow> unlink_loop cond (x # rest) d = (Some IsADirectoryError, d)"
  by (simp add: unlink_def)

lemma same_name:
  "distinct (map entry_name d) \<Longrightarrow> f \<in> set d \<Longrightarrow> g \<in> set d \<Longrightarrow>
     entry_name f = entry_name g \<Longrightarrow> f = g"
  by (metis distinct_map inj_onD)

text \<open>
  The rule of the pruning step when no subdirectory is below the threshold: it ends
  without an exception, and an entry stays if and only if its size is not below the
  threshold.
\<close>

lemma remove_empty_files_regular:
  assumes "distinct (map entry_name directory)"
    and "\<forall>f \<in> set directory. st_size f < threshold \<longrightarrow> \<not> is_dir f"
  shows "fst (remove_empty_files directory threshold) = None"
    and "set (snd (remove_empty_files directory threshold))
           = {f \<in> set directory. \<not> st_size f < threshold}"
  unfolding remove_empty_files_def unlink_loop_files [OF assms(2)]
  using same_name [OF assms(1)] by auto

lemma subset_output_regular:
  assumes "distinct (map entry_name directory)"
    and "\<forall>f \<in> set directory. \<not> contains_str cont (stem (entry_name f)) \<longrightarrow> \<not> is_dir f"
  shows "fst (subset_output directory cont) = None"
    and "set (snd (subset_output directory cont))
           = {f \<in> set directory. contains_str cont (stem (entry_name f))}"
  unfolding subset_output_def unlink_loop_files [OF assms(2)]
  using same_name [OF assms(1)] by auto

lemma remove_empty_files_example:
  "remove_empty_files [Entry ''wu_a.sto'' 500 False, Entry ''wu_b.sto'' 5000 False] threshold_default
     = (None, [Entry ''wu_b.sto'' 5000 False])"
  by (simp add: remove_empty_files_def unlink_def threshold_default_def)

text \<open>
  C7. The results directory holds the subdirectory \<open>figures\<close>, of 64 bytes, and then a
  result file of 500 bytes; both sizes are below the default threshold of 1000 bytes.
  The pruning step raises on the subdirectory, and the file of 500 bytes is not deleted.
\<close>

theorem remove_empty_files_subdirectory:
  "threshold_default = 1000
   \<and> remove_empty_files
       [Entry ''figures'' 64 True, Entry ''wu_walk01_StaticOptimization_force.sto'' 500 False]
       threshold_default
     = (Some IsADirectoryError,
        [Entry ''figures'' 64 True, Entry ''wu_walk01_StaticOptimization_force.sto'' 500 False])"
  by (simp add: remove_empty_files_def unlink_def threshold_default_def)

lemma stem_walk: "stem ''walk01_so.sto'' = ''walk01_so''"
  by (simp add: stem_def path_name_def rfind_def)

lemma stem_run: "stem ''run01_so.sto'' = ''run01_so''"
  by (simp add: stem_def path_name_def rfind_def)

text \<open>
  C8, as stated, fails: the name \<open>walk01_so.sto\<close> contains \<open>sto\<close>, and the file is
  deleted, since the test is made on the stem \<open>walk01_so\<close>.
\<close>

theorem subset_output_name_counterexample:
  "contains_str ''sto'' ''walk01_so.sto''
   \<and> subset_output [Entry ''walk01_so.sto'' 5000 False] ''sto'' = (None, [])"
  by (simp add: subset_output_def unlink_def stem_walk)

text \<open>
  C8, amended. In a directory in which the stem of every subdirectory contains the
  substring (so in every directory of files), the subset step ends without an exception
  and keeps an entry if and only if the stem of its name (the name without its last
  suffix) contains the substring.
\<close>

theorem subset_output_iff:
  "distinct (map entry_name directory) \<Longrightarrow>
   \<forall>g \<in> set directory. is_dir g \<longrightarrow> contains_str cont (stem (entry_name g)) \<Longrightarrow>
   f \<in> set directory \<Longrightarrow>
     fst (subset_output directory cont) = None
   \<and> (f \<in> set (snd (subset_output directory cont))) = contains_str cont (stem (entry_name f))
   \<and> set (snd (subset_output directory cont)) \<subseteq> set directory"
proof -
  assume d: "distinct (map entry_name directory)"
    and s: "\<forall>g \<in> set directory. is_dir g \<longrightarrow> contains_str cont (stem (entry_name g))"
    and f: "f \<in> set directory"
  from s have s': "\<forall>g \<in> set directory. \<not> contains_str cont (stem (entry_name g)) \<longrightarrow> \<not> is_dir g"
    by blast
  from subset_output_regular [OF d s'] f show ?thesis by auto
qed

theorem subset_output_iff_witness:
  "distinct (map entry_name [Entry ''run01_so.sto'' 5000 False, Entry ''walk01_so.sto'' 5000 False])
   \<and> fst (subset_output [Entry ''run01_so.sto'' 5000 False, Entry ''walk01_so.sto'' 5000 False]
            ''walk'') = None
   \<and> Entry ''run01_so.sto'' 5000 False
       \<notin> set (snd (subset_output
                     [Entry ''run01_so.sto'' 5000 False, Entry ''walk01_so.sto'' 5000 False] ''walk''))
   \<and> Entry ''walk01_so.sto'' 5000 False
       \<in> set (snd (subset_output
                     [Entry ''run01_so.sto'' 5000 False, Entry ''walk01_so.sto'' 5000 False] ''walk''))"
proof -
  let ?d = "[Entry ''run01_so.sto'' 5000 False, Entry ''walk01_so.sto'' 5000 False]"
  have h: "distinct (map entry_name ?d)" by simp
  have g: "\<forall>g \<in> set ?d. is_dir g \<longrightarrow> contains_str ''walk'' (stem (entry_name g))" by simp
  have ma: "Entry ''run01_so.sto'' 5000 False \<in> set ?d"
    and mb: "Entry ''walk01_so.sto'' 5000 False \<in> set ?d"
    by simp_all
  have ca: "\<not> contains_str ''walk'' ''run01_so''" by simp
  have cb: "contains_str ''walk'' ''walk01_so''" by simp
  note ra = subset_output_iff [OF h g ma]
  note rb = subset_output_iff [OF h g mb]
  from ra have n: "fst (subset_output ?d ''walk'') = None" by blast
  have a: "Entry ''run01_so.sto'' 5000 False \<notin> set (snd (subset_output ?d ''walk''))"
    using ra [THEN conjunct2, THEN conjunct1] ca by (simp add: stem_run)
  have b: "Entry ''walk01_so.sto'' 5000 False \<in> set (snd (subset_output ?d ''walk''))"
    using rb [THEN conjunct2, THEN conjunct1] cb by (simp add: stem_walk)
  from h n a b show ?thesis by blast
qed

lemma subset_output_subdirectory:
  "subset_output [Entry ''figures'' 4096 True, Entry ''run01_so.sto'' 5000 False] ''walk''
     = (Some IsADirectoryError, [Entry ''figures'' 4096 True, Entry ''run01_so.sto'' 5000 False])"
  by (simp add: subset_output_def unlink_def stem_def path_name_def rfind_def)

section \<open>Properties of the driver\<close>

lemmas act_defs = ret_def throw_def lift_err_def emit_def call_def bind_act_def then_act_def
  when_act_def modify_dir_def cleanup_act_def

lemma tool0_sel:
  "prefix_str (tool0 cls st et ms) = Some ''wu''"
  "start_time (tool0 cls st et ms) = st"
  "end_time (tool0 cls st et ms) = et"
  "class_name (tool0 cls st et ms) = cls"
  "model_input (tool0 cls st et ms) = ModelPath ''wu_scaled.osim''"
  "xml_input (tool0 cls st et ms) = ''wu_so.xml''"
  "xml_forces (tool0 cls st et ms) = None"
  "low_pass (tool0 cls st et ms) = None"
  "sto_output (tool0 cls st et ms) = ''3_static_optimization''"
  "xml_output (tool0 cls st et ms) = ''_xml''"
  "print_to_xml (tool0 cls st et ms) = False"
  "xml_actuators (tool0 cls st et ms) = None"
  "remove_empty_files_flag (tool0 cls st et ms) = False"
  "contains (tool0 cls st et ms) = None"
  "forces_file (tool0 cls st et ms) = None"
  by (simp_all add: tool0_def args0_def tool_args.defs analyze_tool.defs)

lemma stem_wu: "stem ''wu_walk01.mot'' = ''wu_walk01''"
  by (simp add: stem_def path_name_def rfind_def)

lemma stem_ta: "stem ''ta_walk01.mot'' = ''ta_walk01''"
  by (simp add: stem_def path_name_def rfind_def)



lemma bind_lift_Inr: "bind_act (lift_err (Inr x)) f d = f x d"
  by (simp add: bind_act_def lift_err_def split: prod.splits)

lemma bind_lift_Inl: "bind_act (lift_err (Inl e)) f d = ([], Inl e, d)"
  by (simp add: bind_act_def lift_err_def)

lemma bind_events: "\<exists>evs r d'. bind_act m f d = (fst (m d) @ evs, r, d')"
  by (auto simp: bind_act_def split: prod.splits sum.splits)

lemma bind_throw: "bind_act (throw e) f d = ([], Inl e, d)"
  by (simp add: bind_act_def throw_def)

lemma bind_InrE:
  assumes "bind_act m f d = (evs, Inr y, d')"
  obtains e1 x d1 e2 where "m d = (e1, Inr x, d1)" and "f x d1 = (e2, Inr y, d')"
    and "evs = e1 @ e2"
  using assms by (auto simp: bind_act_def split: prod.splits sum.splits)

lemma then_InrE:
  assumes "then_act a k d = (evs, Inr y, d')"
  obtains e1 d1 e2 where "a d = (e1, Inr (), d1)" and "k d1 = (e2, Inr y, d')"
    and "evs = e1 @ e2"
  using assms unfolding then_act_def by (auto elim: bind_InrE)

lemma then_emit: "then_act (emit ev) k d = (case k d of (evs, r, d') \<Rightarrow> (ev # evs, r, d'))"
  by (simp add: then_act_def bind_act_def emit_def split: prod.splits)

lemma then_call:
  "then_act (call name args) k d = (case k d of (evs, r, d') \<Rightarrow> (Engine name args # evs, r, d'))"
  by (simp add: call_def then_emit)

lemma then_ret: "then_act (ret ()) k d = k d"
  by (simp add: then_act_def bind_act_def ret_def split: prod.splits)

text \<open>When a sequence of actions returns, each call in it has been made.\<close>

lemma seq_acts_call:
  "seq_acts acts d = (evs, Inr u, d') \<Longrightarrow> call name args \<in> set acts \<Longrightarrow>
     Engine name args \<in> set evs"
proof (induction acts arbitrary: d evs)
  case Nil
  then show ?case by simp
next
  case (Cons a acts)
  from Cons.prems(1) obtain e1 d1 e2
    where a: "a d = (e1, Inr (), d1)" and rest: "seq_acts acts d1 = (e2, Inr u, d')"
      and evs: "evs = e1 @ e2"
    by (auto elim: then_InrE)
  show ?case
  proof (cases "a = call name args")
    case True
    with a have "e1 = [Engine name args]" by (simp add: call_def emit_def)
    with evs show ?thesis by simp
  next
    case False
    with Cons.prems(2) have "call name args \<in> set acts" by simp
    from Cons.IH [OF rest this] evs show ?thesis by simp
  qed
qed

subsection \<open>What a run does\<close>

lemma prepare_starts:
  "\<exists>evs r d'. prepare en self trial d = (Print (CHR 0x09 # stem trial) # evs, r, d')"
proof -
  have "fst (emit (Print (CHR 0x09 # stem trial)) d) = [Print (CHR 0x09 # stem trial)]"
    by (simp add: emit_def)
  with bind_events [of "emit (Print (CHR 0x09 # stem trial))" _ d]
  show ?thesis unfolding prepare_def then_act_def by auto
qed

lemma run_skipped: "skipped self trial \<Longrightarrow> run_analyze_tool en self trial d = ([], Inr (), d)"
  by (simp add: run_analyze_tool_def skipped_def ret_def)

lemma run_processed:
  assumes "\<not> skipped self trial"
  shows "\<exists>evs r d'. run_analyze_tool en self trial d = (Print (CHR 0x09 # stem trial) # evs, r, d')"
proof -
  let ?k = "\<lambda>(first_time, last_time).
        bind_act (lift_err (parse_analyze_set_xml (et_parse en) (xml_input self) (class_name self)))
          (\<lambda>ps.
        bind_act (configure en self ps) (\<lambda>solve_for_equilibrium.
        finish en self trial ps first_time last_time solve_for_equilibrium))"
  from prepare_starts obtain evs r d'
    where p: "prepare en self trial d = (Print (CHR 0x09 # stem trial) # evs, r, d')" by blast
  from assms have run: "run_analyze_tool en self trial d = bind_act (prepare en self trial) ?k d"
    by (auto simp: run_analyze_tool_def skipped_def)
  from bind_events [of "prepare en self trial" ?k d] p obtain evs' r' d''
    where "bind_act (prepare en self trial) ?k d = (Print (CHR 0x09 # stem trial) # evs @ evs', r', d'')"
    by auto
  with run show ?thesis by simp
qed

text \<open>
  Whatever happens later, the preparation has loaded the model when it is given as a
  path, initialised it and opened the motion storage of the trial.
\<close>

lemma prepare_opens:
  "prepare en self trial d = (evs, r, d') \<Longrightarrow>
     Engine ''Model.initSystem'' [] \<in> set evs
   \<and> Engine ''Storage'' [AStr (resolve en trial)] \<in> set evs
   \<and> (\<forall>p. model_input self = ModelPath p \<longrightarrow> Engine ''Model'' [AStr p] \<in> set evs)"
  unfolding prepare_def
  by (auto simp: then_emit then_call then_ret split: model_ref.splits prod.splits)

lemma run_opens:
  assumes ns: "\<not> skipped self trial"
  shows "Engine ''Model.initSystem'' [] \<in> set (fst (run_analyze_tool en self trial d))
       \<and> Engine ''Storage'' [AStr (resolve en trial)] \<in> set (fst (run_analyze_tool en self trial d))"
proof -
  let ?k = "\<lambda>(first_time, last_time).
        bind_act (lift_err (parse_analyze_set_xml (et_parse en) (xml_input self) (class_name self)))
          (\<lambda>ps.
        bind_act (configure en self ps) (\<lambda>solve_for_equilibrium.
        finish en self trial ps first_time last_time solve_for_equilibrium))"
  from ns have run: "run_analyze_tool en self trial d = bind_act (prepare en self trial) ?k d"
    by (auto simp: run_analyze_tool_def skipped_def)
  obtain e1 r1 d1 where p: "prepare en self trial d = (e1, r1, d1)"
    by (cases "prepare en self trial d") auto
  from bind_events [of "prepare en self trial" ?k d] p obtain e2
    where "fst (bind_act (prepare en self trial) ?k d) = e1 @ e2"
    by auto
  with run prepare_opens [OF p] show ?thesis by simp
qed

text \<open>
  When the branch on the class name returns, the class is one of the three and the
  analysis of that class has been constructed.
\<close>

lemma configure_success:
  assumes "configure en self ps d = (evs, Inr b, d')"
  shows "class_name self \<in> {''StaticOptimization'', ''MuscleAnalysis'', ''JointReaction''}
       \<and> Engine (class_name self) [] \<in> set evs"
proof -
  consider (so) "class_name self = ''StaticOptimization''"
    | (ma) "class_name self = ''MuscleAnalysis''"
    | (jr) "class_name self = ''JointReaction''"
    | (other) "class_name self \<notin> {''StaticOptimization'', ''MuscleAnalysis'', ''JointReaction''}"
    by auto
  then show ?thesis
  proof cases
    case so
    with assms show ?thesis
      by (auto simp: configure_def Let_def call_def emit_def elim!: then_InrE)
  next
    case ma
    with assms show ?thesis
      by (auto simp: configure_def Let_def call_def emit_def elim!: then_InrE)
  next
    case jr
    with assms show ?thesis
      by (auto simp: configure_def Let_def call_def emit_def elim!: then_InrE)
  next
    case other
    with assms show ?thesis by (simp add: configure_def Let_def throw_def)
  qed
qed

text \<open>
  When the last part returns, the tool has been set up on the trial and run, and the
  analysis has been removed from the model.
\<close>

lemma finish_success:
  assumes "finish en self trial ps first_time last_time sfe d = (evs, Inr (), d')"
  shows "Engine ''Analysis.setStartTime'' [ANum first_time] \<in> set evs"
    and "Engine ''Analysis.setEndTime'' [ANum last_time] \<in> set evs"
    and "Engine ''AnalyzeTool.setName'' [AStr (stem trial)] \<in> set evs"
    and "Engine ''AnalyzeTool.setCoordinatesFileName'' [AStr (resolve en trial)] \<in> set evs"
    and "Engine ''AnalyzeTool.setResultsDir'' [AStr (sto_output self)] \<in> set evs"
    and "Engine ''AnalyzeTool.run'' [] \<in> set evs"
    and "Engine ''Model.removeAnalysis'' [] \<in> set evs"
  using assms unfolding finish_def
  by (rule seq_acts_call, simp)+

lemma run_success:
  assumes ns: "\<not> skipped self trial"
    and r: "run_analyze_tool en self trial d = (evs, Inr (), d')"
  shows "class_name self \<in> {''StaticOptimization'', ''MuscleAnalysis'', ''JointReaction''}
       \<and> Engine (class_name self) [] \<in> set evs
       \<and> Engine ''AnalyzeTool.setName'' [AStr (stem trial)] \<in> set evs
       \<and> Engine ''AnalyzeTool.setCoordinatesFileName'' [AStr (resolve en trial)] \<in> set evs
       \<and> Engine ''AnalyzeTool.run'' [] \<in> set evs
       \<and> Engine ''Model.removeAnalysis'' [] \<in> set evs"
proof -
  let ?k = "\<lambda>(first_time, last_time).
        bind_act (lift_err (parse_analyze_set_xml (et_parse en) (xml_input self) (class_name self)))
          (\<lambda>ps.
        bind_act (configure en self ps) (\<lambda>solve_for_equilibrium.
        finish en self trial ps first_time last_time solve_for_equilibrium))"
  from ns r have "bind_act (prepare en self trial) ?k d = (evs, Inr (), d')"
    by (auto simp: run_analyze_tool_def skipped_def)
  then obtain e1 tw d1 e2
    where k: "?k tw d1 = (e2, Inr (), d')" and evs: "evs = e1 @ e2"
    by (rule bind_InrE)
  obtain ft lt where tw: "tw = (ft, lt)" by (cases tw)
  from k tw obtain e3 ps d3 e4
    where "bind_act (configure en self ps) (\<lambda>solve_for_equilibrium.
             finish en self trial ps ft lt solve_for_equilibrium) d3 = (e4, Inr (), d')"
      and e2: "e2 = e3 @ e4"
    by (auto elim: bind_InrE)
  then obtain e5 sfe d5 e6
    where c: "configure en self ps d3 = (e5, Inr sfe, d5)"
      and f: "finish en self trial ps ft lt sfe d5 = (e6, Inr (), d')"
      and e4: "e4 = e5 @ e6"
    by (auto elim: bind_InrE)
  from configure_success [OF c] finish_success [OF f] evs e2 e4 show ?thesis by simp
qed

subsection \<open>A run of the concrete project\<close>

lemma isfloat_examples:
  "isfloat ''1''" "isfloat ''2''" "isfloat ''0.0001''" "isfloat ''100''"
  by (simp_all add: isfloat_def float_syntax_def strip_def py_isspace_def drop_sign_def
        floatnumber_def number_def is_digit_def)

lemma findall_so:
  "findall template_so ''StaticOptimization'' =
     [Element ''on'' (Some ''true'') [],
      Element ''step_interval'' (Some ''1'') [],
      Element ''in_degrees'' (Some ''true'') [],
      Element ''use_model_force_set'' (Some ''true'') [],
      Element ''activation_exponent'' (Some ''2'') [],
      Element ''use_muscle_physiology'' (Some ''true'') [],
      Element ''optimizer_convergence_criterion'' (Some ''0.0001'') [],
      Element ''optimizer_max_iterations'' (Some ''100'') []]"
  by (simp add: findall_def template_so_def)

lemma params_so:
  "parse_analyze_set_xml (et_parse env0) ''wu_so.xml'' ''StaticOptimization'' =
     Inr [''on'' \<mapsto> VBool True, ''step_interval'' \<mapsto> VFloat ''1'',
          ''in_degrees'' \<mapsto> VBool True, ''use_model_force_set'' \<mapsto> VBool True,
          ''activation_exponent'' \<mapsto> VFloat ''2'', ''use_muscle_physiology'' \<mapsto> VBool True,
          ''optimizer_convergence_criterion'' \<mapsto> VFloat ''0.0001'',
          ''optimizer_max_iterations'' \<mapsto> VFloat ''100'']"
  by (simp add: parse_analyze_set_xml_def env0_def findall_so typed_value_def isfloat_examples)

lemma prepare_zero:
  "prepare env0 (tool0 cls (Some 0) (Some 2) ms) ''wu_walk01.mot'' [] =
     ([Print (CHR 0x09 # ''wu_walk01''),
       Engine ''Model'' [AStr ''wu_scaled.osim''],
       Engine ''Model.initSystem'' [],
       Engine ''Storage'' [AStr ''/data/wu_walk01.mot''],
       Engine ''Storage.getFirstTime'' []],
      Inr (1 / 2, 2), [])"
  by (simp add: prepare_def act_defs first_time_of_def last_time_of_def external_loads_def
        tool0_sel stem_wu truthy_num_def truthy_str_def opt_num_def env0_def)

text \<open>
  The whole run of the trial \<open>wu_walk01.mot\<close> for a static optimization with the time
  range \<open>[0, 2]\<close>.
\<close>

lemma run_wu_walk01:
  "run_analyze_tool env0 (tool0 ''StaticOptimization'' (Some 0) (Some 2) [''wu_walk01.mot''])
     ''wu_walk01.mot'' []
       = ([Print (CHR 0x09 # ''wu_walk01''),
           Engine ''Model'' [AStr ''wu_scaled.osim''],
           Engine ''Model.initSystem'' [],
           Engine ''Storage'' [AStr ''/data/wu_walk01.mot''],
           Engine ''Storage.getFirstTime'' [],
           Engine ''StaticOptimization'' [],
           Engine ''StaticOptimization.setUseModelForceSet'' [AVal (VBool True)],
           Engine ''StaticOptimization.setActivationExponent'' [AVal (VFloat ''2'')],
           Engine ''StaticOptimization.setUseMusclePhysiology'' [AVal (VBool True)],
           Engine ''StaticOptimization.setConvergenceCriterion'' [AVal (VFloat ''0.0001'')],
           Engine ''StaticOptimization.setMaxIterations'' [AInt (VFloat ''100'')],
           Engine ''Analysis.setModel'' [],
           Engine ''Analysis.setName'' [AStr ''StaticOptimization''],
           Engine ''Analysis.setOn'' [AVal (VBool True)],
           Engine ''Analysis.setStepInterval'' [AInt (VFloat ''1'')],
           Engine ''Analysis.setInDegrees'' [AVal (VBool True)],
           Engine ''Analysis.setStartTime'' [ANum (1 / 2)],
           Engine ''Analysis.setEndTime'' [ANum 2],
           Engine ''Model.addAnalysis'' [],
           Engine ''AnalyzeTool'' [],
           Engine ''AnalyzeTool.setName'' [AStr ''wu_walk01''],
           Engine ''AnalyzeTool.setModel'' [],
           Engine ''AnalyzeTool.setModelFilename'' [AStr ''wu''],
           Engine ''AnalyzeTool.setSolveForEquilibrium'' [ABool False],
           Engine ''AnalyzeTool.setInitialTime'' [ANum (1 / 2)],
           Engine ''AnalyzeTool.setFinalTime'' [ANum 2],
           Engine ''AnalyzeTool.setCoordinatesFileName'' [AStr ''/data/wu_walk01.mot''],
           Engine ''AnalyzeTool.setLoadModelAndInput'' [ABool True],
           Engine ''AnalyzeTool.setResultsDir'' [AStr ''3_static_optimization''],
           Engine ''AnalyzeTool.run'' [],
           Engine ''Model.removeAnalysis'' []],
          Inr (), [Entry ''wu_walk01_StaticOptimization_force.sto'' 5000 False])"
proof -
  have w: "stem ''wu'' = ''wu''" by (simp add: stem_def path_name_def rfind_def)
  have fi: "float_int_error env0 s = None" for s by (simp add: env0_def)
  show ?thesis
    apply (simp add: run_analyze_tool_def tool0_sel stem_wu truthy_str_def opt_str_def)
    apply (simp add: bind_act_def [of "prepare env0 (tool0 ''StaticOptimization'' (Some 0) (Some 2) [''wu_walk01.mot'']) ''wu_walk01.mot''"] prepare_zero params_so bind_lift_Inr)
    apply (simp add: configure_def finish_def tool0_sel act_defs set_param_def set_int_param_def
        lookup_def py_int_def fi stem_wu w truthy_num_def truthy_str_def)
    apply (simp add: env0_def w)
    done
qed

lemma tool0_mot: "mot_files (tool0 cls st et ms) = ms"
  by (simp add: tool0_def args0_def tool_args.defs analyze_tool.defs)

text \<open>
  The effective times in general: an explicit value other than 0 and -1 is used as it
  is, and the motion file is read when the value is absent, 0 or -1.
\<close>

lemma effective_time_explicit:
  "start_time self = Some t \<Longrightarrow> t \<noteq> 0 \<Longrightarrow> t \<noteq> - 1 \<Longrightarrow>
     first_time_of en self trial d = ([], Inr t, d)"
  "end_time self = Some t \<Longrightarrow> t \<noteq> 0 \<Longrightarrow> t \<noteq> - 1 \<Longrightarrow>
     last_time_of en self trial d = ([], Inr t, d)"
  by (simp_all add: first_time_of_def last_time_of_def truthy_num_def opt_num_def ret_def)

lemma effective_time_absent:
  "start_time self = None \<Longrightarrow>
     first_time_of en self trial d =
       ([Engine ''Storage.getFirstTime'' []], Inr (storage_first_time en (resolve en trial)), d)"
  "end_time self = None \<Longrightarrow>
     last_time_of en self trial d =
       ([Engine ''Storage.getLastTime'' []], Inr (storage_last_time en (resolve en trial)), d)"
  by (simp_all add: first_time_of_def last_time_of_def truthy_num_def act_defs)

lemma effective_time_sentinel:
  "start_time self = Some t \<Longrightarrow> t = 0 \<or> t = - 1 \<Longrightarrow>
     first_time_of en self trial d =
       ([Engine ''Storage.getFirstTime'' []], Inr (storage_first_time en (resolve en trial)), d)"
  "end_time self = Some t \<Longrightarrow> t = 0 \<or> t = - 1 \<Longrightarrow>
     last_time_of en self trial d =
       ([Engine ''Storage.getLastTime'' []], Inr (storage_last_time en (resolve en trial)), d)"
  by (auto simp: first_time_of_def last_time_of_def truthy_num_def act_defs)


text \<open>
  C6. A call of \<open>run_analyze_tool\<close> either does nothing (no event, the directory as it
  was) or processes the trial: it prints the stem of the trial, initialises the model and
  opens the motion storage of the trial, and, when it returns without an exception, the
  class is one of the three, the analysis of that class has been constructed, and the
  tool has been named after the trial, given its motion file, run, and the analysis
  removed. With a prefix given, the trial is processed if and only if its stem starts
  with the prefix; with no prefix, every trial is processed.
\<close>

theorem prefix_filter:
  "(prefix_str self = Some p \<longrightarrow>
      (fst (run_analyze_tool en self trial d) \<noteq> []) = prefix p (stem trial))
   \<and> (prefix_str self = None \<longrightarrow> fst (run_analyze_tool en self trial d) \<noteq> [])
   \<and> (fst (run_analyze_tool en self trial d) = [] \<longrightarrow>
         run_analyze_tool en self trial d = ([], Inr (), d))
   \<and> (fst (run_analyze_tool en self trial d) \<noteq> [] \<longrightarrow>
         hd (fst (run_analyze_tool en self trial d)) = Print (CHR 0x09 # stem trial)
       \<and> Engine ''Model.initSystem'' [] \<in> set (fst (run_analyze_tool en self trial d))
       \<and> Engine ''Storage'' [AStr (resolve en trial)]
           \<in> set (fst (run_analyze_tool en self trial d)))
   \<and> (fst (run_analyze_tool en self trial d) \<noteq> []
         \<and> fst (snd (run_analyze_tool en self trial d)) = Inr () \<longrightarrow>
         class_name self \<in> {''StaticOptimization'', ''MuscleAnalysis'', ''JointReaction''}
       \<and> Engine (class_name self) [] \<in> set (fst (run_analyze_tool en self trial d))
       \<and> Engine ''AnalyzeTool.setName'' [AStr (stem trial)]
           \<in> set (fst (run_analyze_tool en self trial d))
       \<and> Engine ''AnalyzeTool.setCoordinatesFileName'' [AStr (resolve en trial)]
           \<in> set (fst (run_analyze_tool en self trial d))
       \<and> Engine ''AnalyzeTool.run'' [] \<in> set (fst (run_analyze_tool en self trial d))
       \<and> Engine ''Model.removeAnalysis'' [] \<in> set (fst (run_analyze_tool en self trial d)))"
proof (cases "skipped self trial")
  case True
  then have "run_analyze_tool en self trial d = ([], Inr (), d)" by (rule run_skipped)
  with True show ?thesis
    by (auto simp: skipped_def truthy_str_def opt_str_def split: option.splits)
next
  case False
  from run_processed [OF False] obtain evs r d'
    where run: "run_analyze_tool en self trial d = (Print (CHR 0x09 # stem trial) # evs, r, d')"
    by blast
  from False have pre: "(prefix_str self = Some p \<longrightarrow> prefix p (stem trial))"
    by (auto simp: skipped_def truthy_str_def opt_str_def split: option.splits)
  note o = run_opens [OF False, of en d]
  have s: "class_name self \<in> {''StaticOptimization'', ''MuscleAnalysis'', ''JointReaction''}
       \<and> Engine (class_name self) [] \<in> set (fst (run_analyze_tool en self trial d))
       \<and> Engine ''AnalyzeTool.setName'' [AStr (stem trial)]
           \<in> set (fst (run_analyze_tool en self trial d))
       \<and> Engine ''AnalyzeTool.setCoordinatesFileName'' [AStr (resolve en trial)]
           \<in> set (fst (run_analyze_tool en self trial d))
       \<and> Engine ''AnalyzeTool.run'' [] \<in> set (fst (run_analyze_tool en self trial d))
       \<and> Engine ''Model.removeAnalysis'' [] \<in> set (fst (run_analyze_tool en self trial d))"
    if "fst (snd (run_analyze_tool en self trial d)) = Inr ()"
  proof -
    from that run have "run_analyze_tool en self trial d
        = (fst (run_analyze_tool en self trial d), Inr (), d')"
      by simp
    from run_success [OF False this] show ?thesis .
  qed
  have ne: "fst (run_analyze_tool en self trial d) \<noteq> []"
    and h: "hd (fst (run_analyze_tool en self trial d)) = Print (CHR 0x09 # stem trial)"
    using run by simp_all
  from ne h pre o s show ?thesis by blast
qed

theorem prefix_filter_witness:
  "prefix_str (tool0 ''StaticOptimization'' (Some 0) (Some 2) [''wu_walk01.mot'']) = Some ''wu''
   \<and> fst (run_analyze_tool env0
            (tool0 ''StaticOptimization'' (Some 0) (Some 2) [''wu_walk01.mot''])
            ''wu_walk01.mot'' []) \<noteq> []
   \<and> fst (run_analyze_tool env0
            (tool0 ''StaticOptimization'' (Some 0) (Some 2) [''wu_walk01.mot''])
            ''ta_walk01.mot'' []) = []
   \<and> fst (run_analyze_tool env0
            ((tool0 ''StaticOptimization'' (Some 0) (Some 2) [''wu_walk01.mot''])
               \<lparr>prefix_str := None\<rparr>)
            ''ta_walk01.mot'' []) \<noteq> []
   \<and> fst (snd (run_analyze_tool env0
            (tool0 ''StaticOptimization'' (Some 0) (Some 2) [''wu_walk01.mot''])
            ''wu_walk01.mot'' [])) = Inr ()
   \<and> Engine ''AnalyzeTool.run'' []
       \<in> set (fst (run_analyze_tool env0
            (tool0 ''StaticOptimization'' (Some 0) (Some 2) [''wu_walk01.mot''])
            ''wu_walk01.mot'' []))"
proof -
  let ?t = "tool0 ''StaticOptimization'' (Some 0) (Some 2) [''wu_walk01.mot'']"
  have p: "prefix_str ?t = Some ''wu''" by (simp add: tool0_sel)
  have n: "prefix_str (?t\<lparr>prefix_str := None\<rparr>) = None" by simp
  have a: "prefix ''wu'' (stem ''wu_walk01.mot'')" by (simp add: stem_wu)
  have b: "\<not> prefix ''wu'' (stem ''ta_walk01.mot'')" by (simp add: stem_ta)
  note wu = prefix_filter [of ?t "''wu''" env0 "''wu_walk01.mot''" "[]"]
  note ta = prefix_filter [of ?t "''wu''" env0 "''ta_walk01.mot''" "[]"]
  note r1 = wu [THEN conjunct1, rule_format, OF p]
  note r2 = ta [THEN conjunct1, rule_format, OF p]
  note r3 = prefix_filter [of "?t\<lparr>prefix_str := None\<rparr>" "''wu''" env0 "''ta_walk01.mot''" "[]",
      THEN conjunct2, THEN conjunct1, rule_format, OF n]
  from r1 a have c1: "fst (run_analyze_tool env0 ?t ''wu_walk01.mot'' []) \<noteq> []" by simp
  from r2 b have c2: "fst (run_analyze_tool env0 ?t ''ta_walk01.mot'' []) = []" by simp
  have c4: "fst (snd (run_analyze_tool env0 ?t ''wu_walk01.mot'' [])) = Inr ()"
    by (simp add: run_wu_walk01)
  from wu c1 c4 have c5: "Engine ''AnalyzeTool.run'' []
       \<in> set (fst (run_analyze_tool env0 ?t ''wu_walk01.mot'' []))"
    by blast
  from p c1 c2 r3 c4 c5 show ?thesis by blast
qed

text \<open>
  C2. With \<open>time_range = [0, 2]\<close> the explicit start is 0, which is not the sentinel -1;
  the motion of the trial starts at 0.5 s. The start time that the run gives to the
  analysis (\<open>setStartTime\<close>) and to the tool (\<open>setInitialTime\<close>) is 0.5, read from the
  motion file, and not the explicit 0. The explicit end 2 is used.
\<close>

theorem start_time_zero_ignored:
  "start_time (tool0 ''StaticOptimization'' (Some 0) (Some 2) [''wu_walk01.mot'']) = Some 0
   \<and> storage_first_time env0 (resolve env0 ''wu_walk01.mot'') = 1 / 2
   \<and> first_time_of env0 (tool0 ''StaticOptimization'' (Some 0) (Some 2) [''wu_walk01.mot'']) ''wu_walk01.mot'' []
       = ([Engine ''Storage.getFirstTime'' []], Inr (1 / 2), [])
   \<and> run_analyze_tool env0 (tool0 ''StaticOptimization'' (Some 0) (Some 2) [''wu_walk01.mot'']) ''wu_walk01.mot'' []
       = ([Print (CHR 0x09 # ''wu_walk01''),
           Engine ''Model'' [AStr ''wu_scaled.osim''],
           Engine ''Model.initSystem'' [],
           Engine ''Storage'' [AStr ''/data/wu_walk01.mot''],
           Engine ''Storage.getFirstTime'' [],
           Engine ''StaticOptimization'' [],
           Engine ''StaticOptimization.setUseModelForceSet'' [AVal (VBool True)],
           Engine ''StaticOptimization.setActivationExponent'' [AVal (VFloat ''2'')],
           Engine ''StaticOptimization.setUseMusclePhysiology'' [AVal (VBool True)],
           Engine ''StaticOptimization.setConvergenceCriterion'' [AVal (VFloat ''0.0001'')],
           Engine ''StaticOptimization.setMaxIterations'' [AInt (VFloat ''100'')],
           Engine ''Analysis.setModel'' [],
           Engine ''Analysis.setName'' [AStr ''StaticOptimization''],
           Engine ''Analysis.setOn'' [AVal (VBool True)],
           Engine ''Analysis.setStepInterval'' [AInt (VFloat ''1'')],
           Engine ''Analysis.setInDegrees'' [AVal (VBool True)],
           Engine ''Analysis.setStartTime'' [ANum (1 / 2)],
           Engine ''Analysis.setEndTime'' [ANum 2],
           Engine ''Model.addAnalysis'' [],
           Engine ''AnalyzeTool'' [],
           Engine ''AnalyzeTool.setName'' [AStr ''wu_walk01''],
           Engine ''AnalyzeTool.setModel'' [],
           Engine ''AnalyzeTool.setModelFilename'' [AStr ''wu''],
           Engine ''AnalyzeTool.setSolveForEquilibrium'' [ABool False],
           Engine ''AnalyzeTool.setInitialTime'' [ANum (1 / 2)],
           Engine ''AnalyzeTool.setFinalTime'' [ANum 2],
           Engine ''AnalyzeTool.setCoordinatesFileName'' [AStr ''/data/wu_walk01.mot''],
           Engine ''AnalyzeTool.setLoadModelAndInput'' [ABool True],
           Engine ''AnalyzeTool.setResultsDir'' [AStr ''3_static_optimization''],
           Engine ''AnalyzeTool.run'' [],
           Engine ''Model.removeAnalysis'' []],
          Inr (), [Entry ''wu_walk01_StaticOptimization_force.sto'' 5000 False])"
proof -
  have st: "start_time (tool0 ''StaticOptimization'' (Some 0) (Some 2) [''wu_walk01.mot'']) = Some 0"
    by (simp add: tool0_sel)
  have ft: "storage_first_time env0 (resolve env0 ''wu_walk01.mot'') = 1 / 2"
    by (simp add: env0_def)
  have f: "first_time_of env0 (tool0 ''StaticOptimization'' (Some 0) (Some 2) [''wu_walk01.mot''])
             ''wu_walk01.mot'' []
       = ([Engine ''Storage.getFirstTime'' []], Inr (1 / 2), [])"
    by (simp add: first_time_of_def tool0_sel truthy_num_def act_defs env0_def)
  from st ft f run_wu_walk01 show ?thesis by blast
qed

subsection \<open>The constructor\<close>

lemma bind_ret: "bind_act m ret d = m d"
  by (simp add: bind_act_def ret_def split: prod.splits sum.splits)

lemma init_time_range_other:
  "time_range \<noteq> TRNone \<Longrightarrow> \<forall>xs. time_range \<noteq> TRList xs \<and> time_range \<noteq> TRArray xs \<Longrightarrow>
     init_time_range time_range = Inl RuntimeError"
  by (cases time_range) (simp_all add: init_time_range_def)

lemma init_time_range_seq:
  "time_range = TRList xs \<or> time_range = TRArray xs \<Longrightarrow> 2 \<le> length xs \<Longrightarrow>
     init_time_range time_range = Inr (Some (xs ! 0), Some (xs ! 1))"
  by (auto simp: init_time_range_def getitem_def)

lemma init_time_range_short:
  "time_range = TRList xs \<or> time_range = TRArray xs \<Longrightarrow> length xs < 2 \<Longrightarrow>
     init_time_range time_range = Inl IndexError"
  by (auto simp: init_time_range_def getitem_def)

text \<open>
  C3, as stated, fails in both directions: the list \<open>[1, 2, 3]\<close> is not a sequence of
  two elements, and the constructor returns the object with the times 1 and 2; the tuple
  \<open>(2, 5)\<close> is a sequence of two elements, and the constructor raises \<open>RuntimeError\<close>.
\<close>

theorem time_range_shape_counterexample:
  "init env0 ''StaticOptimization'' args0 (TRList [1, 2, 3]) (MotOne ''ta_walk01.mot'') []
     = ([], Inr (tool0 ''StaticOptimization'' (Some 1) (Some 2) [''ta_walk01.mot'']), [])
   \<and> init env0 ''StaticOptimization'' args0 (TRTuple [2, 5]) (MotOne ''wu_walk01.mot'') []
     = ([], Inl RuntimeError, [])"
proof -
  have s: "skipped (tool0 ''StaticOptimization'' (Some 1) (Some 2) [''ta_walk01.mot'']) ''ta_walk01.mot''"
    by (simp add: skipped_def tool0_sel truthy_str_def opt_str_def stem_ta)
  have "construct env0 ''StaticOptimization'' args0 (Some 1) (Some 2) (MotOne ''ta_walk01.mot'') []
     = ([], Inr (tool0 ''StaticOptimization'' (Some 1) (Some 2) [''ta_walk01.mot'']), [])"
    by (simp add: construct_def init_mot_files_def tool0_def [symmetric] Let_def
          main_loop_def tool0_mot run_skipped [OF s] then_act_def bind_act_def ret_def
          lift_err_def)
  then have a: "init env0 ''StaticOptimization'' args0 (TRList [1, 2, 3]) (MotOne ''ta_walk01.mot'') []
     = ([], Inr (tool0 ''StaticOptimization'' (Some 1) (Some 2) [''ta_walk01.mot'']), [])"
    by (simp add: init_def init_time_range_def getitem_def bind_lift_Inr)
  have b: "init env0 ''StaticOptimization'' args0 (TRTuple [2, 5]) (MotOne ''wu_walk01.mot'') []
     = ([], Inl RuntimeError, [])"
    by (simp add: init_def init_time_range_def bind_lift_Inl)
  from a b show ?thesis by blast
qed

text \<open>
  C3, amended. The test is on the type of the argument. For an argument that is not
  \<open>None\<close>, not a list and not an array, the constructor raises \<open>RuntimeError\<close> with no
  event and no change of the directory, so before any trial is processed. For a list or
  an array of at least two elements the construction goes on, with the first two
  elements as the start and end times; for \<open>None\<close> it goes on with no times.
\<close>

theorem time_range_check:
  "(time_range \<noteq> TRNone \<and> (\<forall>xs. time_range \<noteq> TRList xs \<and> time_range \<noteq> TRArray xs) \<longrightarrow>
      init en cls args time_range mot d = ([], Inl RuntimeError, d))
   \<and> ((time_range = TRList xs \<or> time_range = TRArray xs) \<and> 2 \<le> length xs \<longrightarrow>
      init en cls args time_range mot d
        = construct en cls args (Some (xs ! 0)) (Some (xs ! 1)) mot d)
   \<and> (time_range = TRNone \<longrightarrow>
      init en cls args time_range mot d = construct en cls args None None mot d)"
proof (intro conjI impI)
  assume "time_range \<noteq> TRNone \<and> (\<forall>xs. time_range \<noteq> TRList xs \<and> time_range \<noteq> TRArray xs)"
  then have "init_time_range time_range = Inl RuntimeError"
    using init_time_range_other by blast
  then show "init en cls args time_range mot d = ([], Inl RuntimeError, d)"
    by (simp add: init_def bind_lift_Inl)
next
  assume "(time_range = TRList xs \<or> time_range = TRArray xs) \<and> 2 \<le> length xs"
  then have "init_time_range time_range = Inr (Some (xs ! 0), Some (xs ! 1))"
    using init_time_range_seq by blast
  then show "init en cls args time_range mot d
        = construct en cls args (Some (xs ! 0)) (Some (xs ! 1)) mot d"
    by (simp add: init_def bind_lift_Inr)
next
  assume "time_range = TRNone"
  then show "init en cls args time_range mot d = construct en cls args None None mot d"
    by (simp add: init_def init_time_range_def bind_lift_Inr)
qed

theorem time_range_check_witness:
  "init env0 ''StaticOptimization'' args0 (TRNumber 2) (MotOne ''wu_walk01.mot'') []
     = ([], Inl RuntimeError, [])
   \<and> init env0 ''StaticOptimization'' args0 (TRList [2, 5]) (MotOne ''wu_walk01.mot'') []
     = construct env0 ''StaticOptimization'' args0 (Some 2) (Some 5) (MotOne ''wu_walk01.mot'') []
   \<and> init env0 ''StaticOptimization'' args0 TRNone (MotOne ''wu_walk01.mot'') []
     = construct env0 ''StaticOptimization'' args0 None None (MotOne ''wu_walk01.mot'') []"
proof -
  note t1 = time_range_check [where time_range = "TRNumber 2" and en = env0
      and cls = "''StaticOptimization''" and args = args0 and mot = "MotOne ''wu_walk01.mot''"
      and d = "[]", THEN conjunct1, rule_format]
  note t2 = time_range_check [where time_range = "TRList [2, 5]" and xs = "[2, 5]" and en = env0
      and cls = "''StaticOptimization''" and args = args0 and mot = "MotOne ''wu_walk01.mot''"
      and d = "[]", THEN conjunct2, THEN conjunct1, rule_format]
  note t3 = time_range_check [where time_range = TRNone and en = env0
      and cls = "''StaticOptimization''" and args = args0 and mot = "MotOne ''wu_walk01.mot''"
      and d = "[]", THEN conjunct2, THEN conjunct2, rule_format]
  have a: "init env0 ''StaticOptimization'' args0 (TRNumber 2) (MotOne ''wu_walk01.mot'') []
     = ([], Inl RuntimeError, [])"
    by (rule t1) simp
  have b: "init env0 ''StaticOptimization'' args0 (TRList [2, 5]) (MotOne ''wu_walk01.mot'') []
     = construct env0 ''StaticOptimization'' args0 (Some 2) (Some 5) (MotOne ''wu_walk01.mot'') []"
    using t2 by simp
  have c: "init env0 ''StaticOptimization'' args0 TRNone (MotOne ''wu_walk01.mot'') []
     = construct env0 ''StaticOptimization'' args0 None None (MotOne ''wu_walk01.mot'') []"
    by (rule t3) simp
  from a b c show ?thesis by blast
qed

subsection \<open>An unknown class name\<close>


lemma confined_throw: "confined P (throw e)"
  by (simp add: confined_def throw_def)














lemma configure_unknown:
  "class_name self \<notin> {''StaticOptimization'', ''MuscleAnalysis'', ''JointReaction''} \<Longrightarrow>
     configure en self ps = throw ValueError"
  by (simp add: configure_def Let_def)

lemma run_unknown:
  assumes cls: "class_name self \<notin> {''StaticOptimization'', ''MuscleAnalysis'', ''JointReaction''}"
    and ns: "\<not> skipped self trial"
    and p: "prepare en self trial d = (evs, r, d')"
  shows "run_analyze_tool en self trial d =
           (evs,
            (case r of
               Inl e \<Rightarrow> Inl e
             | Inr tw \<Rightarrow>
                 (case parse_analyze_set_xml (et_parse en) (xml_input self) (class_name self) of
                    Inl e \<Rightarrow> Inl e
                  | Inr ps \<Rightarrow> Inl ValueError)),
            d')"
proof -
  let ?k = "\<lambda>(first_time, last_time).
        bind_act (lift_err (parse_analyze_set_xml (et_parse en) (xml_input self) (class_name self)))
          (\<lambda>ps.
        bind_act (configure en self ps) (\<lambda>solve_for_equilibrium.
        finish en self trial ps first_time last_time solve_for_equilibrium))"
  from ns have run: "run_analyze_tool en self trial d = bind_act (prepare en self trial) ?k d"
    by (auto simp: run_analyze_tool_def skipped_def)
  have k: "?k tw d' =
      ([], (case parse_analyze_set_xml (et_parse en) (xml_input self) (class_name self) of
                    Inl e \<Rightarrow> Inl e
                  | Inr ps \<Rightarrow> Inl ValueError), d')" for tw
    by (cases tw;
        cases "parse_analyze_set_xml (et_parse en) (xml_input self) (class_name self)")
       (simp_all add: bind_lift_Inl bind_lift_Inr configure_unknown [OF cls] bind_throw)
  show ?thesis
    unfolding run
    by (cases r) (simp_all add: bind_act_def [of "prepare en self trial"] p k)
qed







text \<open>
  With \<open>xml_forces\<close> set and \<open>ext_forces_dir\<close> left at \<open>None\<close>, the preparation raises
  \<open>TypeError\<close> before the temporary file is written, and that is the exception of the run.
\<close>

lemma unknown_class_loads_type_error:
  "run_analyze_tool env0
     ((tool0 ''AnalyzeTool'' None None [''wu_walk01.mot''])\<lparr>xml_forces := Some ''forces_sensor.xml''\<rparr>)
     ''wu_walk01.mot'' [] =
     ([Print (CHR 0x09 # ''wu_walk01''),
       Engine ''Model'' [AStr ''wu_scaled.osim''],
       Engine ''Model.initSystem'' [],
       Engine ''Storage'' [AStr ''/data/wu_walk01.mot''],
       Engine ''Storage.getFirstTime'' [],
       Engine ''Storage.getLastTime'' [],
       Engine ''ExternalLoads'' [AStr ''forces_sensor.xml'', ABool True]],
      Inl TypeError, [])"
proof -
  let ?t = "(tool0 ''AnalyzeTool'' None None [''wu_walk01.mot''])\<lparr>xml_forces := Some ''forces_sensor.xml''\<rparr>"
  have cls: "class_name ?t \<notin> {''StaticOptimization'', ''MuscleAnalysis'', ''JointReaction''}"
    by (simp add: tool0_sel)
  have ns: "\<not> skipped ?t ''wu_walk01.mot''"
    by (simp add: skipped_def tool0_sel truthy_str_def opt_str_def stem_wu)
  have e: "ext_forces_dir ?t = None"
    by (simp add: tool0_def args0_def tool_args.defs analyze_tool.defs)
  have p: "prepare env0 ?t ''wu_walk01.mot'' [] =
     ([Print (CHR 0x09 # ''wu_walk01''),
       Engine ''Model'' [AStr ''wu_scaled.osim''],
       Engine ''Model.initSystem'' [],
       Engine ''Storage'' [AStr ''/data/wu_walk01.mot''],
       Engine ''Storage.getFirstTime'' [],
       Engine ''Storage.getLastTime'' [],
       Engine ''ExternalLoads'' [AStr ''forces_sensor.xml'', ABool True]],
      Inl TypeError, [])"
    by (simp add: prepare_def act_defs first_time_of_def last_time_of_def external_loads_def
        tool0_sel stem_wu truthy_num_def truthy_str_def opt_str_def e env0_def)
  from run_unknown [OF cls ns p] show ?thesis by simp
qed

end
